theory Spec2Isabelle
  imports Main "HOL-Library.Word" "HOL-Library.Signed_Division"
begin

unbundle bit_operations_syntax

section \<open>Bytes and little-endian fields\<close>

text \<open>
  A buffer of \<^verbatim>\<open>char\<close> (a \<^verbatim>\<open>std::string\<close>, a \<^verbatim>\<open>const char*\<close> with its size, the
  contents of a stream) is a list of \<^typ>\<open>char\<close>: a HOL character is one byte.
  \<^verbatim>\<open>write2\<close> and \<^verbatim>\<open>write4\<close> copy the memory image of an integer on a little-endian
  host: byte \<open>k\<close> is \<open>v div 256 ^ k mod 256\<close> (\<^const>\<open>char_of\<close> reduces modulo 256).
  In the source they write to a stream; here they return the bytes, and the caller
  appends them to the stream it writes to.
\<close>

type_synonym bytes = string

definition write2 :: "16 word \<Rightarrow> bytes" where
  "write2 v = [char_of (unat v), char_of (unat v div 256)]"

definition write4 :: "32 word \<Rightarrow> bytes" where
  "write4 v = [char_of (unat v), char_of (unat v div 256),
               char_of (unat v div 65536), char_of (unat v div 16777216)]"

text \<open>Decoders of the same layout, used to read fields back out of the output.\<close>

definition read2 :: "bytes \<Rightarrow> 16 word" where
  "read2 bs = of_nat (of_char (bs ! 0) + 256 * of_char (bs ! 1))"

definition read4 :: "bytes \<Rightarrow> 32 word" where
  "read4 bs = of_nat (of_char (bs ! 0) + 256 * of_char (bs ! 1)
                      + 65536 * of_char (bs ! 2) + 16777216 * of_char (bs ! 3))"

text \<open>The field of \<open>n\<close> bytes at offset \<open>off\<close> of a buffer.\<close>

definition field :: "nat \<Rightarrow> nat \<Rightarrow> bytes \<Rightarrow> bytes" where
  "field off n bs = take n (drop off bs)"

section \<open>Constants and packed records\<close>

definition ZIP_LOCAL_FILE_HEADER_SIG :: "32 word" where
  "ZIP_LOCAL_FILE_HEADER_SIG = 0x04034b50"

definition ZIP_CENTRAL_DIRECTORY_FILE_HEADER_SIG :: "32 word" where
  "ZIP_CENTRAL_DIRECTORY_FILE_HEADER_SIG = 0x02014b50"

definition VERSION_MADE_BY :: "16 word" where
  "VERSION_MADE_BY = 20"

datatype CompressionMethod = STORED | DEFLATE

fun method_code :: "CompressionMethod \<Rightarrow> 16 word" where
  "method_code STORED = 0"
| "method_code DEFLATE = 8"

record ZipLocalFileHeader =
  version_needed_to_extract :: "16 word"
  general_purpose_bit_flag :: "16 word"
  compression_method :: "16 word"
  last_mod_file_time :: "16 word"
  last_mod_file_date :: "16 word"
  crc32 :: "32 word"
  compressed_size :: "32 word"
  uncompressed_size :: "32 word"
  filename_length :: "16 word"
  extra_field_length :: "16 word"

text \<open>The default member initialisers of the struct.\<close>

definition ZipLocalFileHeader_init :: ZipLocalFileHeader where
  "ZipLocalFileHeader_init =
     \<lparr>version_needed_to_extract = VERSION_MADE_BY,
      general_purpose_bit_flag = 0,
      compression_method = method_code STORED,
      last_mod_file_time = 0,
      last_mod_file_date = 0,
      crc32 = 0,
      compressed_size = 0,
      uncompressed_size = 0,
      filename_length = 0,
      extra_field_length = 0\<rparr>"

text \<open>
  The memory image of the packed struct, which the source writes with
  \<^verbatim>\<open>write(reinterpret_cast<const char*>(&local_header), sizeof(local_header))\<close>:
  the fields in declaration order, no padding, 26 bytes.
\<close>

definition local_header_bytes :: "ZipLocalFileHeader \<Rightarrow> bytes" where
  "local_header_bytes h =
     write2 (version_needed_to_extract h) @ write2 (general_purpose_bit_flag h)
     @ write2 (compression_method h) @ write2 (last_mod_file_time h)
     @ write2 (last_mod_file_date h) @ write4 (crc32 h) @ write4 (compressed_size h)
     @ write4 (uncompressed_size h) @ write2 (filename_length h)
     @ write2 (extra_field_length h)"

record ZipCentralDirectoryFileHeaderSuffix =
  file_comment_length :: "16 word"
  disk_number_start :: "16 word"
  internal_file_attr :: "16 word"
  external_file_attr :: "32 word"
  relative_offset_of_local_header :: "32 word"

definition ZipCentralDirectoryFileHeaderSuffix_init :: ZipCentralDirectoryFileHeaderSuffix where
  "ZipCentralDirectoryFileHeaderSuffix_init =
     \<lparr>file_comment_length = 0, disk_number_start = 0, internal_file_attr = 0,
      external_file_attr = 0, relative_offset_of_local_header = 0\<rparr>"

definition suffix_bytes :: "ZipCentralDirectoryFileHeaderSuffix \<Rightarrow> bytes" where
  "suffix_bytes x =
     write2 (file_comment_length x) @ write2 (disk_number_start x)
     @ write2 (internal_file_attr x) @ write4 (external_file_attr x)
     @ write4 (relative_offset_of_local_header x)"

record ZipEndOfCentralDirectoryRecord =
  signature :: "32 word"
  disk_number :: "16 word"
  central_directory_disk_number :: "16 word"
  num_entries_on_disk :: "16 word"
  num_entries_total :: "16 word"
  central_directory_size :: "32 word"
  central_directory_offset :: "32 word"
  comment_size :: "16 word"

definition ZipEndOfCentralDirectoryRecord_init :: ZipEndOfCentralDirectoryRecord where
  "ZipEndOfCentralDirectoryRecord_init =
     \<lparr>signature = 0x06054b50, disk_number = 0, central_directory_disk_number = 0,
      num_entries_on_disk = 0, num_entries_total = 0, central_directory_size = 0,
      central_directory_offset = 0, comment_size = 0\<rparr>"

definition eocd_bytes :: "ZipEndOfCentralDirectoryRecord \<Rightarrow> bytes" where
  "eocd_bytes e =
     write4 (signature e) @ write2 (disk_number e)
     @ write2 (central_directory_disk_number e) @ write2 (num_entries_on_disk e)
     @ write2 (num_entries_total e) @ write4 (central_directory_size e)
     @ write4 (central_directory_offset e) @ write2 (comment_size e)"

section \<open>Helper functions\<close>

definition ends_with :: "string \<Rightarrow> string \<Rightarrow> bool" where
  "ends_with s suffix =
     (length suffix \<le> length s \<and> drop (length s - length suffix) s = suffix)"

definition filename_with_extension :: "string \<Rightarrow> string \<Rightarrow> string" where
  "filename_with_extension filename extension =
     (if ends_with filename extension then filename else filename @ extension)"

section \<open>The output file stream\<close>

text \<open>
  The \<^verbatim>\<open>std::ofstream fs_\<close>: the bytes of the file, whether the file is open, and the
  two error bits of the stream. The file is opened truncated and only appended to, so
  the put position is the length of the contents. The exception mask of the stream is
  never set, so no stream operation throws: a write to a stream that is not good sets
  \<^verbatim>\<open>failbit\<close> and writes nothing, a write of at least one byte to a closed file sets
  \<^verbatim>\<open>badbit\<close>, \<^verbatim>\<open>tellp\<close> returns \<open>-1\<close> on a failed stream or a closed file, and
  \<^verbatim>\<open>close\<close> on a closed file sets \<^verbatim>\<open>failbit\<close>. Failures of the device itself (a full
  disk) are outside the model: a write to an open, good stream appends.
\<close>

record ofstream =
  contents :: bytes
  is_open :: bool
  badbit :: bool
  failbit :: bool

definition good :: "ofstream \<Rightarrow> bool" where
  "good f = (\<not> badbit f \<and> \<not> failbit f)"

definition ofstream_write :: "ofstream \<Rightarrow> bytes \<Rightarrow> ofstream" where
  "ofstream_write f bs =
     (if \<not> good f then f\<lparr>failbit := True\<rparr>
      else if is_open f then f\<lparr>contents := contents f @ bs\<rparr>
      else if bs = [] then f
      else f\<lparr>badbit := True\<rparr>)"

definition tellp :: "ofstream \<Rightarrow> int" where
  "tellp f = (if good f \<and> is_open f then int (length (contents f)) else - 1)"

definition ofstream_close :: "ofstream \<Rightarrow> ofstream" where
  "ofstream_close f = (if is_open f then f\<lparr>is_open := False\<rparr> else f\<lparr>failbit := True\<rparr>)"

section \<open>Errors\<close>

text \<open>
  \<open>runtime_error\<close> is the \<^verbatim>\<open>std::runtime_error\<close> the source throws, with its message;
  \<open>assertion_failed\<close> is a failed \<^verbatim>\<open>assert\<close>; \<open>null_dereference\<close> is the read through
  the null pointer that \<^verbatim>\<open>gmtime\<close> returns when the year does not fit an \<^verbatim>\<open>int\<close>.
\<close>

datatype error =
  runtime_error string
| assertion_failed
| null_dereference

section \<open>Calendar time\<close>

text \<open>
  \<^verbatim>\<open>struct tm\<close> with the fields the source reads, and the C library's \<^verbatim>\<open>gmtime\<close>:
  the UTC decomposition of a count of seconds since 1970-01-01T00:00:00Z in the
  proleptic Gregorian calendar, without leap seconds. \<open>civil_from_days\<close> gives year,
  month (1 to 12) and day of month of a day number counted from 1970-01-01. As in C,
  \<open>tm_mon\<close> counts from 0 and \<open>tm_year\<close> from 1900.
\<close>

record tm =
  tm_sec :: int
  tm_min :: int
  tm_hour :: int
  tm_mday :: int
  tm_mon :: int
  tm_year :: int

definition civil_from_days :: "int \<Rightarrow> int \<times> int \<times> int" where
  "civil_from_days days =
     (let z = days + 719468;
          era = z div 146097;
          doe = z mod 146097;
          yoe = (doe - doe div 1460 + doe div 36524 - doe div 146096) div 365;
          doy = doe - (365 * yoe + yoe div 4 - yoe div 100);
          mp = (5 * doy + 2) div 153;
          d = doy - (153 * mp + 2) div 5 + 1;
          m = (if mp < 10 then mp + 3 else mp - 9);
          y = yoe + era * 400 + (if m \<le> 2 then 1 else 0)
      in (y, m, d))"

definition gmtime :: "int \<Rightarrow> tm option" where
  "gmtime t =
     (let (y, m, d) = civil_from_days (t div 86400);
          secs = t mod 86400
      in if y - 1900 < - 2147483648 \<or> 2147483647 < y - 1900 then None
         else Some \<lparr>tm_sec = secs mod 60, tm_min = secs div 60 mod 60,
                     tm_hour = secs div 3600, tm_mday = d, tm_mon = m - 1,
                     tm_year = y - 1900\<rparr>)"

text \<open>
  The two MS-DOS fields as the source computes them: an \<^verbatim>\<open>int\<close> expression of
  shifts and sums, converted to \<^verbatim>\<open>uint16_t\<close> by the assignment, which keeps the low 16
  bits (\<^const>\<open>word_of_int\<close>). \<open>sdiv\<close> is C's division, truncating towards zero.
\<close>

definition dos_time :: "tm \<Rightarrow> 16 word" where
  "dos_time utctm =
     word_of_int (push_bit 11 (tm_hour utctm) + push_bit 5 (tm_min utctm)
                  + tm_sec utctm sdiv 2)"

definition dos_date :: "tm \<Rightarrow> 16 word" where
  "dos_date utctm =
     word_of_int (push_bit 9 (tm_year utctm - 80) + push_bit 5 (tm_mon utctm + 1)
                  + tm_mday utctm)"

section \<open>The deflate encoder\<close>

text \<open>
  The zlib stream as the source uses it. \<open>next_in\<close> is the input buffer at the input
  pointer and \<open>avail_in\<close> the count of bytes the encoder may read from it (a 32-bit
  \<^verbatim>\<open>uInt\<close>); \<open>next_out\<close> holds the bytes the encoder has stored from the output
  pointer on since the pointer was last set, \<open>avail_out\<close> the room left;
  \<open>total_in\<close> and \<open>total_out\<close> are the encoder's running counters (\<^verbatim>\<open>uLong\<close>);
  \<open>internal\<close> is the encoder's private state.

  zlib is not part of the repository: the three library functions the source calls are
  parameters of the model. \<open>deflateInit2\<close> gives the return code and the private state
  of \<^verbatim>\<open>deflateInit2(&strm, Z_DEFAULT_COMPRESSION, Z_DEFLATED, -15, 9, Z_DEFAULT_STRATEGY)\<close>,
  \<open>deflate\<close> is \<^verbatim>\<open>deflate(&strm, flush)\<close> returning its code and the stream after the
  call, \<open>compressBound\<close> is \<^verbatim>\<open>compressBound\<close>.
\<close>

record 'z z_stream =
  next_in :: bytes
  avail_in :: "32 word"
  total_in :: "64 word"
  next_out :: bytes
  avail_out :: "32 word"
  total_out :: "64 word"
  internal :: 'z

record 'z zlib =
  deflateInit2 :: "int \<times> 'z"
  deflate :: "'z z_stream \<Rightarrow> int \<Rightarrow> int \<times> 'z z_stream"
  compressBound :: "64 word \<Rightarrow> 64 word"

definition Z_OK :: int where "Z_OK = 0"
definition Z_STREAM_END :: int where "Z_STREAM_END = 1"
definition Z_BUF_ERROR :: int where "Z_BUF_ERROR = - 5"
definition Z_NO_FLUSH :: int where "Z_NO_FLUSH = 0"
definition Z_FINISH :: int where "Z_FINISH = 4"

text \<open>
  \<^verbatim>\<open>compress_chunk\<close>: point the stream at the source and the destination, call
  \<^verbatim>\<open>deflate\<close> once, assert on its return code. The two sizes are \<^verbatim>\<open>size_t\<close> values
  stored into \<^verbatim>\<open>uInt\<close> fields, which keeps their low 32 bits.
\<close>

definition compress_chunk ::
  "'z zlib \<Rightarrow> 'z z_stream \<Rightarrow> bytes \<Rightarrow> nat \<Rightarrow> bool \<Rightarrow> error + 'z z_stream" where
  "compress_chunk z strm source dest_len finish =
     (let strm = strm\<lparr>next_out := [], avail_out := of_nat dest_len\<rparr>;
          strm = strm\<lparr>next_in := source, avail_in := of_nat (length source)\<rparr>;
          (ret, strm) = deflate z strm (if finish then Z_FINISH else Z_NO_FLUSH)
      in if finish then
           (if ret = Z_STREAM_END then Inr strm else Inl assertion_failed)
         else
           (if ret = Z_OK \<or> ret = Z_BUF_ERROR then Inr strm else Inl assertion_failed))"

text \<open>
  The \<^verbatim>\<open>std::vector<unsigned char> compressed\<close> that receives the encoder's output:
  \<open>store_at\<close> is the encoder's store of \<open>ws\<close> from offset \<open>off\<close> on, \<open>resize\<close> is
  \<^verbatim>\<open>vector::resize\<close> (truncate, or extend with zero bytes).
\<close>

definition store_at :: "bytes \<Rightarrow> nat \<Rightarrow> bytes \<Rightarrow> bytes" where
  "store_at buf off ws = take off buf @ ws @ drop (off + length ws) buf"

definition resize :: "nat \<Rightarrow> bytes \<Rightarrow> bytes" where
  "resize n buf = take n buf @ replicate (n - length buf) (CHR 0x00)"

text \<open>
  The deflate branch of \<^verbatim>\<open>add_file_from_buffers\<close> (the body of
  \<^verbatim>\<open>if (compression == CompressionMethod::DEFLATE)\<close> after the header's method is
  set): it returns the compressed bytes and the local \<^verbatim>\<open>compressed_size\<close> (primed
  here, the header has a field of that name), or the error that ends the call.
  \<open>buf1 = None\<close> is the null pointer.
\<close>

definition deflate_buffers ::
  "'z zlib \<Rightarrow> bytes \<Rightarrow> bytes option \<Rightarrow> 32 word \<Rightarrow> error + (bytes \<times> nat)" where
  "deflate_buffers z buf0 buf1 total_size =
     (let (ret, st) = deflateInit2 z in
      if ret \<noteq> Z_OK then Inl (runtime_error ''Failed to initialize zlib'')
      else
        let strm = \<lparr>next_in = [], avail_in = 0, total_in = 0, next_out = [],
                    avail_out = 0, total_out = 0, internal = st\<rparr>;
            compressed = resize (unat (compressBound z (ucast total_size))) []
        in case compress_chunk z strm buf0 (length compressed) (buf1 = None) of
             Inl e \<Rightarrow> Inl e
           | Inr strm \<Rightarrow>
               let compressed = store_at compressed 0 (next_out strm) in
               if avail_in strm \<noteq> 0 then Inl assertion_failed
               else
                 let compressed_size' = unat (total_out strm) in
                 case (case buf1 of
                         None \<Rightarrow> Inr (strm, compressed, compressed_size')
                       | Some b1 \<Rightarrow>
                           (case compress_chunk z strm b1
                                   (nat ((int (length compressed) - int compressed_size')
                                         mod 2 ^ 64)) True of
                              Inl e \<Rightarrow> Inl e
                            | Inr strm \<Rightarrow>
                                Inr (strm,
                                     store_at compressed compressed_size' (next_out strm),
                                     unat (total_out strm)))) of
                   Inl e \<Rightarrow> Inl e
                 | Inr (strm, compressed, compressed_size') \<Rightarrow>
                     let compressed = resize compressed_size' compressed in
                     if total_in strm \<noteq> ucast total_size then Inl assertion_failed
                     else Inr (compressed, compressed_size'))"

section \<open>NpzFile\<close>

text \<open>
  The members of the class (their names without the trailing underscore). The
  constructor opens the file; \<open>can_open\<close> tells whether the file system lets it.
  Throughout, a local variable of the source whose name is also a field of a record
  carries a prime.
\<close>

record NpzFile =
  filename :: string
  fs :: ofstream
  central_dir :: bytes
  num_entries :: "16 word"

definition NpzFile_new :: "bool \<Rightarrow> string \<Rightarrow> error + NpzFile" where
  "NpzFile_new can_open name =
     (let filename' = (if ends_with name ''.zip'' then name
                       else filename_with_extension name ''.npz'')
      in if \<not> can_open then Inl (runtime_error (''Failed to open file: '' @ filename'))
         else Inr \<lparr>filename = filename',
                   fs = \<lparr>contents = [], is_open = True, badbit = False, failbit = False\<rparr>,
                   central_dir = [],
                   num_entries = 0\<rparr>)"

definition num_files :: "NpzFile \<Rightarrow> int" where
  "num_files s = uint (num_entries s)"

text \<open>The end-of-directory record that \<^verbatim>\<open>close\<close> fills in.\<close>

definition close_eocd :: "NpzFile \<Rightarrow> ZipEndOfCentralDirectoryRecord" where
  "close_eocd s =
     ZipEndOfCentralDirectoryRecord_init
       \<lparr>num_entries_on_disk := num_entries s,
        num_entries_total := num_entries s,
        central_directory_size := of_nat (length (central_dir s)),
        central_directory_offset := word_of_int (tellp (fs s))\<rparr>"

definition close :: "NpzFile \<Rightarrow> NpzFile" where
  "close s =
     (let eocd = close_eocd s;
          f = ofstream_write (fs s) (central_dir s);
          f = ofstream_write f (eocd_bytes eocd);
          f = ofstream_close f
      in s\<lparr>fs := f\<rparr>)"

text \<open>
  \<^verbatim>\<open>add_file_from_buffers\<close>, in the blocks of the source. The first fills the local
  header from the broken-down time, the name length and the total size (the lines from
  \<^verbatim>\<open>ZipLocalFileHeader local_header\<close> to the assignment of \<^verbatim>\<open>uncompressed_size\<close>);
  \<^verbatim>\<open>use_crc\<close> is the constant \<^verbatim>\<open>false\<close>, so the CRC stays 0.
\<close>

definition fill_local_header :: "tm \<Rightarrow> 32 word \<Rightarrow> 32 word \<Rightarrow> ZipLocalFileHeader" where
  "fill_local_header utctm filename_length' total_size =
     (let local_header = ZipLocalFileHeader_init;
          local_header = local_header\<lparr>last_mod_file_time := dos_time utctm\<rparr>;
          local_header = local_header\<lparr>last_mod_file_date := dos_date utctm\<rparr>;
          crc = 0;
          local_header = local_header\<lparr>crc32 := crc\<rparr>;
          local_header = local_header\<lparr>filename_length := ucast filename_length'\<rparr>;
          local_header = local_header\<lparr>uncompressed_size := total_size\<rparr>
      in local_header)"

text \<open>
  The block \<^verbatim>\<open>// Write local header\<close> after the read of the put position: the
  signature, the header, the name, then the compressed bytes or the two buffers.
\<close>

definition write_local_entry ::
  "ofstream \<Rightarrow> ZipLocalFileHeader \<Rightarrow> string \<Rightarrow> CompressionMethod \<Rightarrow> bytes \<Rightarrow> bytes
     \<Rightarrow> bytes option \<Rightarrow> ofstream" where
  "write_local_entry f local_header name compression compressed buf0 buf1 =
     (let f = ofstream_write f (write4 ZIP_LOCAL_FILE_HEADER_SIG);
          f = ofstream_write f (local_header_bytes local_header);
          f = ofstream_write f name
      in if compression = DEFLATE then ofstream_write f compressed
         else
           let f = ofstream_write f buf0
           in (case buf1 of None \<Rightarrow> f | Some b1 \<Rightarrow> ofstream_write f b1))"

text \<open>
  The block \<^verbatim>\<open>// Add to central directory\<close>: the bytes of one record, which the
  source appends to \<^verbatim>\<open>central_dir_\<close>.
\<close>

definition central_directory_record ::
  "ZipLocalFileHeader \<Rightarrow> 32 word \<Rightarrow> string \<Rightarrow> bytes" where
  "central_directory_record local_header local_header_offset name =
     (let suffix = ZipCentralDirectoryFileHeaderSuffix_init
                     \<lparr>relative_offset_of_local_header := local_header_offset\<rparr>
      in write4 ZIP_CENTRAL_DIRECTORY_FILE_HEADER_SIG @ write2 VERSION_MADE_BY
         @ local_header_bytes local_header @ suffix_bytes suffix @ name)"

text \<open>
  The whole function. \<open>z\<close> is zlib, \<open>now\<close> is what \<^verbatim>\<open>std::time(nullptr)\<close> returns; a
  buffer and its size are one list, and \<open>buf1 = None\<close> is the null pointer. The result
  is the returned size or the error that ends the call, together with the object as the
  call leaves it.
\<close>

definition add_file_from_buffers ::
  "'z zlib \<Rightarrow> int \<Rightarrow> NpzFile \<Rightarrow> string \<Rightarrow> bytes \<Rightarrow> bytes option \<Rightarrow> int
     \<Rightarrow> CompressionMethod \<Rightarrow> (error + nat) \<times> NpzFile" where
  "add_file_from_buffers z now s name buf0 buf1 timestamp compression =
     (let s = s\<lparr>num_entries := num_entries s + 1\<rparr> in
      if length name > 0xffff then (Inl (runtime_error (''Filename too long: '' @ name)), s)
      else
        let filename_length' = (of_nat (length name) :: 32 word);
            timestamp = (if timestamp = 0 then now else timestamp)
        in case gmtime timestamp of
             None \<Rightarrow> (Inl null_dereference, s)
           | Some utctm \<Rightarrow>
               let total_size = (of_nat (length buf0
                                   + (case buf1 of None \<Rightarrow> 0 | Some b1 \<Rightarrow> length b1)) :: 32 word);
                   local_header = fill_local_header utctm filename_length' total_size
               in case (if compression = DEFLATE then
                          (case deflate_buffers z buf0 buf1 total_size of
                             Inl e \<Rightarrow> Inl e
                           | Inr (compressed, compressed_size') \<Rightarrow>
                               Inr (local_header\<lparr>compression_method := method_code compression,
                                                 compressed_size := of_nat compressed_size'\<rparr>,
                                    compressed))
                        else Inr (local_header\<lparr>compressed_size := total_size\<rparr>, [])) of
                    Inl e \<Rightarrow> (Inl e, s)
                  | Inr (local_header, compressed) \<Rightarrow>
                      let local_header_offset = (word_of_int (tellp (fs s)) :: 32 word);
                          f = write_local_entry (fs s) local_header name compression
                                compressed buf0 buf1;
                          cd = central_dir s
                               @ central_directory_record local_header local_header_offset name
                      in (Inr (unat (compressed_size local_header)),
                          s\<lparr>fs := f, central_dir := cd\<rparr>))"

text \<open>The two \<^verbatim>\<open>add_file\<close> overloads of the header: one buffer, stored.\<close>

definition add_file ::
  "'z zlib \<Rightarrow> int \<Rightarrow> NpzFile \<Rightarrow> string \<Rightarrow> bytes \<Rightarrow> int \<Rightarrow> (error + unit) \<times> NpzFile" where
  "add_file z now s name data timestamp =
     (case add_file_from_buffers z now s name data None timestamp STORED of
        (Inl e, s') \<Rightarrow> (Inl e, s')
      | (Inr n, s') \<Rightarrow> (Inr (), s'))"

section \<open>NPY headers and arrays\<close>

definition NPY_ARRAY_ALIGN :: nat where
  "NPY_ARRAY_ALIGN = 64"

record NpyHeader =
  magic :: bytes
  major_version :: char
  minor_version :: char
  header_len :: "16 word"

definition NpyHeader_init :: NpyHeader where
  "NpyHeader_init =
     \<lparr>magic = [CHR 0x93, CHR ''N'', CHR ''U'', CHR ''M'', CHR ''P'', CHR ''Y''],
      major_version = CHR 0x01, minor_version = CHR 0x00, header_len = 0\<rparr>"

text \<open>The memory image of the packed struct: \<^verbatim>\<open>sizeof(NpyHeader)\<close> is 10.\<close>

definition NpyHeader_bytes :: "NpyHeader \<Rightarrow> bytes" where
  "NpyHeader_bytes h = magic h @ [major_version h, minor_version h] @ write2 (header_len h)"

text \<open>\<^verbatim>\<open>std::to_string\<close> of an unsigned value: its decimal digits.\<close>

function to_string :: "nat \<Rightarrow> string" where
  "to_string n =
     (if n < 10 then [char_of (48 + n)]
      else to_string (n div 10) @ [char_of (48 + n mod 10)])"
  by pat_completeness auto
termination
  by (relation "measure id") auto

declare to_string.simps [simp del]

text \<open>
  A shape is a \<^verbatim>\<open>std::vector<size_t>\<close>. \<open>append_dims\<close> is the loop of
  \<^verbatim>\<open>create_npy_header\<close> over the dimensions from index 1 on.
\<close>

type_synonym shape_type = "64 word list"

fun append_dims :: "string \<Rightarrow> shape_type \<Rightarrow> string" where
  "append_dims header [] = header"
| "append_dims header (d # ds) = append_dims (header @ '','' @ to_string (unat d)) ds"

definition create_npy_header :: "string \<Rightarrow> shape_type \<Rightarrow> error + string" where
  "create_npy_header type_descr shape =
     (if \<not> length shape > 0 then Inl assertion_failed
      else
        let npy_header = NpyHeader_init\<lparr>header_len := of_nat (NPY_ARRAY_ALIGN - 10)\<rparr>;
            header = NpyHeader_bytes npy_header;
            header = header @ ''{'descr': '' @ [CHR 0x27];
            header = header @ type_descr;
            header = header @ ''', 'fortran_order': False, 'shape': ('';
            header = header @ to_string (unat (hd shape));
            header = append_dims header (tl shape);
            header = (if length shape = 1 then header @ '','' else header);
            header = header @ '')}'';
            pad_count = NPY_ARRAY_ALIGN - (length header + 1) mod NPY_ARRAY_ALIGN;
            header = header @ replicate pad_count (CHR '' '');
            header = header @ [CHR 0x0A]
        in if \<not> length header \<le> 0xffff then Inl assertion_failed
           else
             let header =
                   (if length header > NPY_ARRAY_ALIGN then
                      let npy_header = npy_header\<lparr>header_len := of_nat (length header - 10)\<rparr>
                      in take 8 header @ write2 (header_len npy_header) @ drop 10 header
                    else header)
             in if length header mod NPY_ARRAY_ALIGN \<noteq> 0 then Inl assertion_failed
                else Inr header)"

text \<open>
  The element types with a \<^verbatim>\<open>numpy_descr\<close> specialisation, their descriptors and
  their sizes.
\<close>

datatype dtype =
  T_int8 | T_int16 | T_int32 | T_int64 | T_uint8 | T_uint16 | T_uint32 | T_uint64
| T_float | T_double | T_char | T_complex_float | T_complex_double

fun numpy_descr :: "dtype \<Rightarrow> string" where
  "numpy_descr T_int8 = ''|i1''"
| "numpy_descr T_int16 = ''<i2''"
| "numpy_descr T_int32 = ''<i4''"
| "numpy_descr T_int64 = ''<i8''"
| "numpy_descr T_uint8 = ''|u1''"
| "numpy_descr T_uint16 = ''<u2''"
| "numpy_descr T_uint32 = ''<u4''"
| "numpy_descr T_uint64 = ''<u8''"
| "numpy_descr T_float = ''<f4''"
| "numpy_descr T_double = ''<f8''"
| "numpy_descr T_char = ''|S1''"
| "numpy_descr T_complex_float = ''<c8''"
| "numpy_descr T_complex_double = ''<c16''"

fun sizeof :: "dtype \<Rightarrow> 64 word" where
  "sizeof T_int8 = 1"
| "sizeof T_int16 = 2"
| "sizeof T_int32 = 4"
| "sizeof T_int64 = 8"
| "sizeof T_uint8 = 1"
| "sizeof T_uint16 = 2"
| "sizeof T_uint32 = 4"
| "sizeof T_uint64 = 8"
| "sizeof T_float = 4"
| "sizeof T_double = 8"
| "sizeof T_char = 1"
| "sizeof T_complex_float = 8"
| "sizeof T_complex_double = 16"

text \<open>
  \<^verbatim>\<open>add_array_of_type\<close>. The product of the dimensions is
  \<^verbatim>\<open>std::accumulate(shape.begin(), shape.end(), 1, std::multiplies<size_t>())\<close>: the
  initial value \<^verbatim>\<open>1\<close> is an \<^verbatim>\<open>int\<close>, so the accumulator is an \<^verbatim>\<open>int\<close>, widened to
  \<^verbatim>\<open>size_t\<close> for each multiplication and narrowed back by the assignment.
  \<open>data\<close> is the data pointer: \<open>None\<close> for a null pointer, else the memory behind
  it, as the byte at each offset from the pointer. The function passes the pointer and
  \<open>data_size\<close> on, so the second buffer of the entry is the \<open>data_size\<close> bytes from
  the pointer on; nothing compares \<open>data_size\<close> with the array the caller owns.
\<close>

definition add_array_of_type ::
  "'z zlib \<Rightarrow> int \<Rightarrow> NpzFile \<Rightarrow> string \<Rightarrow> string \<Rightarrow> 64 word \<Rightarrow> (nat \<Rightarrow> char) option
     \<Rightarrow> shape_type \<Rightarrow> int \<Rightarrow> (error + nat) \<times> NpzFile" where
  "add_array_of_type z now s name type_descr type_size data shape timestamp =
     (case create_npy_header type_descr shape of
        Inl e \<Rightarrow> (Inl e, s)
      | Inr npy_header \<Rightarrow>
          let full_name = filename_with_extension name ''.npy'';
              data_size = unat ((scast (fold (\<lambda>d acc. ucast ((scast acc :: 64 word) * d))
                                          shape (1 :: 32 word)) :: 64 word) * type_size)
          in add_file_from_buffers z now s full_name npy_header
               (map_option (\<lambda>mem. map mem [0..<data_size]) data) timestamp STORED)"

definition add_array ::
  "'z zlib \<Rightarrow> int \<Rightarrow> NpzFile \<Rightarrow> string \<Rightarrow> dtype \<Rightarrow> (nat \<Rightarrow> char) option \<Rightarrow> shape_type
     \<Rightarrow> int \<Rightarrow> (error + nat) \<times> NpzFile" where
  "add_array z now s name T data shape timestamp =
     add_array_of_type z now s name (numpy_descr T) (sizeof T) data shape timestamp"

section \<open>Notions used to state the properties\<close>

text \<open>An archive that can be written to: its file is open and its stream is good.\<close>

definition writable :: "ofstream \<Rightarrow> bool" where
  "writable f = (is_open f \<and> good f)"

text \<open>The payload of an entry as it reaches the file.\<close>

definition payload_bytes :: "CompressionMethod \<Rightarrow> bytes \<Rightarrow> bytes \<Rightarrow> bytes option \<Rightarrow> bytes" where
  "payload_bytes compression compressed buf0 buf1 =
     (if compression = DEFLATE then compressed
      else buf0 @ (case buf1 of None \<Rightarrow> [] | Some b1 \<Rightarrow> b1))"

text \<open>
  An encoder to instantiate the zlib parameter in closed examples. It follows the
  calling convention of \<^verbatim>\<open>deflate\<close> (it consumes input while there is room for output,
  advances the counters and pointers, and answers \<^verbatim>\<open>Z_STREAM_END\<close> to \<^verbatim>\<open>Z_FINISH\<close> once
  all input is consumed) and emits its input unchanged.
\<close>

definition copy_zlib :: "unit zlib" where
  "copy_zlib =
     \<lparr>deflateInit2 = (Z_OK, ()),
      deflate = (\<lambda>strm flush.
         let n = min (unat (avail_in strm)) (unat (avail_out strm));
             strm = strm\<lparr>next_out := next_out strm @ take n (next_in strm),
                          avail_out := avail_out strm - of_nat n,
                          total_out := total_out strm + of_nat n,
                          next_in := drop n (next_in strm),
                          avail_in := avail_in strm - of_nat n,
                          total_in := total_in strm + of_nat n\<rparr>
         in (if flush = Z_FINISH \<and> avail_in strm = 0 then Z_STREAM_END else Z_OK, strm)),
      compressBound = (\<lambda>n. n + 13)\<rparr>"

text \<open>The destructor \<^verbatim>\<open>~NpzFile\<close> calls \<^verbatim>\<open>close\<close>.\<close>

definition NpzFile_destructor :: "NpzFile \<Rightarrow> NpzFile" where
  "NpzFile_destructor s = close s"

text \<open>The object that the constructor yields for \<open>ziptest.zip\<close>, for closed examples.\<close>

definition ziptest :: NpzFile where
  "ziptest =
     \<lparr>filename = ''ziptest.zip'',
      fs = \<lparr>contents = [], is_open = True, badbit = False, failbit = False\<rparr>,
      central_dir = [],
      num_entries = 0\<rparr>"

text \<open>
  The two MS-DOS values in the words of the specification, over the calendar fields
  (year as a calendar year, month from 1).
\<close>

definition msdos_time_spec :: "int \<Rightarrow> int \<Rightarrow> int \<Rightarrow> int" where
  "msdos_time_spec hour minute second = hour * 2048 + minute * 32 + second div 2"

definition msdos_date_spec :: "int \<Rightarrow> int \<Rightarrow> int \<Rightarrow> int" where
  "msdos_date_spec year month day = (year - 1980) * 512 + month * 32 + day"

text \<open>
  A sequence of additions: each entry is the reading of the clock at its call and the
  arguments of \<^verbatim>\<open>add_file_from_buffers\<close>. The sequence stops at the first call that
  ends in an error.
\<close>

type_synonym entry = "int \<times> string \<times> bytes \<times> bytes option \<times> int \<times> CompressionMethod"

fun add_entries :: "'z zlib \<Rightarrow> NpzFile \<Rightarrow> entry list \<Rightarrow> error + NpzFile" where
  "add_entries z s [] = Inr s"
| "add_entries z s ((now, name, buf0, buf1, timestamp, compression) # es) =
     (case add_file_from_buffers z now s name buf0 buf1 timestamp compression of
        (Inl e, s') \<Rightarrow> Inl e
      | (Inr n, s') \<Rightarrow> add_entries z s' es)"

text \<open>
  Archives for closed examples: \<open>bubble_archive\<close> holds the entry \<open>bubble.txt\<close>;
  \<open>big_archive\<close> holds one stored entry of \<open>2 ^ 32\<close> zero bytes, and
  \<open>big_archive_2\<close> a second, empty entry after it.
\<close>

definition bubble_archive :: NpzFile where
  "bubble_archive =
     snd (add_file_from_buffers copy_zlib 1 ziptest ''bubble.txt''
            (''Words are loud'' @ [CHR 0x0A]) None 1700000000 STORED)"

definition big_archive :: NpzFile where
  "big_archive =
     snd (add_file_from_buffers copy_zlib 1 ziptest ''x''
            (replicate 4294967296 (CHR 0x00)) None 1700000000 STORED)"

definition big_archive_2 :: NpzFile where
  "big_archive_2 =
     snd (add_file_from_buffers copy_zlib 1 big_archive ''y'' [] None 1700000000 STORED)"

text \<open>
  The dictionary of an array header in the words of the specification: the descriptor,
  the order flag and the shape, where a shape of one dimension is rendered as the value
  and a comma, and a longer shape as its values joined by commas.
\<close>

fun join_commas :: "string list \<Rightarrow> string" where
  "join_commas [] = []"
| "join_commas [x] = x"
| "join_commas (x # y # ys) = x @ '','' @ join_commas (y # ys)"

definition shape_text_spec :: "shape_type \<Rightarrow> string" where
  "shape_text_spec shape =
     (if length shape = 1 then to_string (unat (hd shape)) @ '',''
      else join_commas (map (\<lambda>d. to_string (unat d)) shape))"

definition header_dict_spec :: "string \<Rightarrow> shape_type \<Rightarrow> string" where
  "header_dict_spec type_descr shape =
     ''{'descr': '' @ [CHR 0x27] @ type_descr
     @ ''', 'fortran_order': False, 'shape': ('' @ shape_text_spec shape @ '')}''"

text \<open>
  The header before its length field is patched: the preamble with the initial length
  54, the dictionary, the padding and the newline.
\<close>

definition npy_unpatched :: "string \<Rightarrow> shape_type \<Rightarrow> string" where
  "npy_unpatched type_descr shape =
     (let pre = NpyHeader_bytes (NpyHeader_init\<lparr>header_len := 54\<rparr>);
          text = pre @ header_dict_spec type_descr shape
      in text @ replicate (64 - (length text + 1) mod 64) (CHR '' '') @ [CHR 0x0A])"

text \<open>
  The stream as \<^verbatim>\<open>add_file_from_buffers\<close> sets it up after \<^verbatim>\<open>deflateInit2\<close>, and
  the stream as \<^verbatim>\<open>compress_chunk\<close> hands it to \<^verbatim>\<open>deflate\<close>: pointed at a source
  fragment and at a destination with \<open>dest_len\<close> bytes of room.
\<close>

definition fresh_stream :: "'z \<Rightarrow> 'z z_stream" where
  "fresh_stream st =
     \<lparr>next_in = [], avail_in = 0, total_in = 0, next_out = [], avail_out = 0,
      total_out = 0, internal = st\<rparr>"

definition feed :: "'z z_stream \<Rightarrow> bytes \<Rightarrow> nat \<Rightarrow> 'z z_stream" where
  "feed strm source dest_len =
     strm\<lparr>next_out := [], avail_out := of_nat dest_len,
           next_in := source, avail_in := of_nat (length source)\<rparr>"

text \<open>
  Reading the accumulator back as a sequence of central-directory records: each record
  begins with the signature, has 46 fixed bytes with the lengths of its name, extra
  field and comment at offsets 28, 30 and 32, and is followed by those three. The
  result is the names of the records in order, or \<open>None\<close> when the bytes are not a
  sequence of whole records.
\<close>

function central_dir_names :: "bytes \<Rightarrow> string list option" where
  "central_dir_names bs =
     (if bs = [] then Some []
      else if length bs < 46
              \<or> field 0 4 bs \<noteq> write4 ZIP_CENTRAL_DIRECTORY_FILE_HEADER_SIG then None
      else
        let n = unat (read2 (field 28 2 bs));
            m = unat (read2 (field 30 2 bs));
            k = unat (read2 (field 32 2 bs))
        in if length bs < 46 + n + m + k then None
           else map_option (\<lambda>names. field 46 n bs # names)
                  (central_dir_names (drop (46 + n + m + k) bs)))"
  by pat_completeness auto
termination
  by (relation "measure length") auto

declare central_dir_names.simps [simp del]



text \<open>
  The time and date fields of the local header that a call wrote, read back from the
  file: \<open>s\<close> is the archive before the call and \<open>s'\<close> after it, so the header
  begins where the file of \<open>s\<close> ended. An entry is stamped with the instant \<open>t\<close>
  when the two fields are the MS-DOS values of the UTC decomposition of \<open>t\<close>, the date
  as a 16-bit field holds it.
\<close>

definition written_dos_time :: "NpzFile \<Rightarrow> NpzFile \<Rightarrow> int" where
  "written_dos_time s s' =
     uint (read2 (field (length (contents (fs s)) + 10) 2 (contents (fs s'))))"

definition written_dos_date :: "NpzFile \<Rightarrow> NpzFile \<Rightarrow> int" where
  "written_dos_date s s' =
     uint (read2 (field (length (contents (fs s)) + 12) 2 (contents (fs s'))))"

definition stamped_with :: "NpzFile \<Rightarrow> NpzFile \<Rightarrow> int \<Rightarrow> bool" where
  "stamped_with s s' t =
     (case gmtime t of
        None \<Rightarrow> False
      | Some utctm \<Rightarrow>
          written_dos_time s s'
            = msdos_time_spec (tm_hour utctm) (tm_min utctm) (tm_sec utctm)
          \<and> written_dos_date s s'
            = msdos_date_spec (tm_year utctm + 1900) (tm_mon utctm + 1) (tm_mday utctm)
              mod 65536)"


section \<open>Basic facts\<close>

lemma length_write2 [simp]: "length (write2 v) = 2"
  by (simp add: write2_def)

lemma length_write4 [simp]: "length (write4 v) = 4"
  by (simp add: write4_def)

lemma length_local_header_bytes [simp]: "length (local_header_bytes h) = 26"
  by (simp add: local_header_bytes_def)

lemma length_suffix_bytes [simp]: "length (suffix_bytes x) = 14"
  by (simp add: suffix_bytes_def)

lemma length_eocd_bytes [simp]: "length (eocd_bytes e) = 22"
  by (simp add: eocd_bytes_def)

lemma length_central_directory_record [simp]:
  "length (central_directory_record h off name) = 46 + length name"
  by (simp add: central_directory_record_def)

lemma ofstream_write_writable:
  "writable f \<Longrightarrow> ofstream_write f bs = f\<lparr>contents := contents f @ bs\<rparr>"
  by (simp add: ofstream_write_def writable_def)

lemma writable_contents_update [simp]:
  "writable (f\<lparr>contents := c\<rparr>) = writable f"
  by (simp add: writable_def good_def)

lemma tellp_writable: "writable f \<Longrightarrow> tellp f = int (length (contents f))"
  by (simp add: tellp_def writable_def)

lemma write_local_entry_writable:
  assumes "writable f"
  shows "write_local_entry f h name c compressed buf0 buf1 =
           f\<lparr>contents := contents f @ write4 ZIP_LOCAL_FILE_HEADER_SIG @ local_header_bytes h
                           @ name @ payload_bytes c compressed buf0 buf1\<rparr>"
  using assms
  by (simp add: write_local_entry_def payload_bytes_def ofstream_write_writable Let_def
      split: option.split)

lemma close_writable:
  assumes "writable (fs s)"
  shows "contents (fs (close s)) = contents (fs s) @ central_dir s @ eocd_bytes (close_eocd s)"
  using assms
  by (simp add: close_def ofstream_write_writable Let_def ofstream_close_def)

lemma NpzFile_new_fresh:
  assumes "NpzFile_new True fname = Inr npz"
  shows "writable (fs npz)" and "contents (fs npz) = []" and "central_dir npz = []"
    and "num_entries npz = 0"
  using assms
  by (auto simp: NpzFile_new_def Let_def writable_def good_def split: if_splits)

lemma add_file_from_buffers_stored:
  assumes "length name \<le> 65535"
    and "gmtime (if timestamp = 0 then now else timestamp) = Some utctm"
    and "writable (fs s)"
  shows "add_file_from_buffers z now s name buf0 buf1 timestamp STORED =
    (let total_size = (of_nat (length buf0
                         + (case buf1 of None \<Rightarrow> 0 | Some b1 \<Rightarrow> length b1)) :: 32 word);
         h = (fill_local_header utctm (of_nat (length name)) total_size)
               \<lparr>compressed_size := total_size\<rparr>
     in (Inr (unat total_size),
         s\<lparr>num_entries := num_entries s + 1,
           fs := (fs s)\<lparr>contents := contents (fs s) @ write4 ZIP_LOCAL_FILE_HEADER_SIG
                     @ local_header_bytes h @ name @ payload_bytes STORED [] buf0 buf1\<rparr>,
           central_dir := central_dir s
              @ central_directory_record h (of_nat (length (contents (fs s)))) name\<rparr>))"
  using assms
  by (simp add: add_file_from_buffers_def Let_def write_local_entry_writable tellp_writable)

lemma single_stored_entry:
  assumes "NpzFile_new True fname = Inr npz"
    and "gmtime (if timestamp = 0 then now else timestamp) = Some utctm"
    and "length name \<le> 65535"
    and "add_file z now npz name data timestamp = (r, npz')"
  shows "r = Inr ()"
    and "length (contents (fs (close npz')))
           = 30 + length name + length data + (46 + length name) + 22"
    and "field (30 + length name) (length data) (contents (fs (close npz'))) = data"
proof -
  note e = NpzFile_new_fresh [OF assms(1)]
  note a = add_file_from_buffers_stored [OF assms(3) assms(2) e(1), of z data None]
  have r: "r = Inr ()"
    and n: "npz' = snd (add_file_from_buffers z now npz name data None timestamp STORED)"
    using assms(4) by (simp_all add: add_file_def a Let_def)
  show "r = Inr ()" by (rule r)
  have c: "contents (fs (close npz')) = write4 ZIP_LOCAL_FILE_HEADER_SIG
      @ local_header_bytes ((fill_local_header utctm (of_nat (length name))
            (of_nat (length data)))\<lparr>compressed_size := of_nat (length data)\<rparr>)
      @ name @ data @ central_dir npz' @ eocd_bytes (close_eocd npz')"
    by (simp add: n a Let_def close_writable e payload_bytes_def)
  have d: "length (central_dir npz') = 46 + length name"
    by (simp add: n a Let_def e)
  show "length (contents (fs (close npz')))
          = 30 + length name + length data + (46 + length name) + 22"
    by (simp add: c d)
  show "field (30 + length name) (length data) (contents (fs (close npz'))) = data"
    by (simp add: c field_def)
qed

section \<open>The properties\<close>

text \<open>
  C1. A new archive, the one entry \<open>bubble.txt\<close> with the 15 bytes
  \<open>Words are loud\<close> and a newline added through \<^verbatim>\<open>add_file\<close> with the default
  timestamp, then \<^verbatim>\<open>close\<close>: the call succeeds, the file has exactly 133 bytes, and the 15
  bytes at offset 40 are the payload. This holds whatever the clock reads, as long as
  \<^verbatim>\<open>gmtime\<close> can decompose it.
\<close>

theorem bubble_archive_is_133_bytes:
  assumes "gmtime now = Some utctm"
  shows "case NpzFile_new True fname of
           Inl e \<Rightarrow> False
         | Inr npz \<Rightarrow>
            (case add_file z now npz ''bubble.txt'' (''Words are loud'' @ [CHR 0x0A]) 0 of
               (r, npz') \<Rightarrow>
                 r = Inr () \<and> length (contents (fs (close npz'))) = 133
                 \<and> field 40 15 (contents (fs (close npz')))
                     = ''Words are loud'' @ [CHR 0x0A])"
proof -
  obtain npz where n: "NpzFile_new True fname = Inr npz"
    by (simp add: NpzFile_new_def Let_def)
  obtain r npz' where a:
    "add_file z now npz ''bubble.txt'' (''Words are loud'' @ [CHR 0x0A]) 0 = (r, npz')"
    by (cases "add_file z now npz ''bubble.txt'' (''Words are loud'' @ [CHR 0x0A]) 0")
  have g: "gmtime (if (0::int) = 0 then now else 0) = Some utctm"
    using assms by simp
  have l: "length ''bubble.txt'' \<le> 65535" by simp
  have ld: "length (''Words are loud'' @ [CHR 0x0A]) = 15" by simp
  have ln: "30 + length ''bubble.txt'' = 40" by simp
  have lt: "40 + 15 + (46 + length ''bubble.txt'') + 22 = (133::nat)" by simp
  have "r = Inr () \<and> length (contents (fs (close npz'))) = 133
         \<and> field 40 15 (contents (fs (close npz'))) = ''Words are loud'' @ [CHR 0x0A]"
    using single_stored_entry [OF n g l a, unfolded ld ln lt] by blast
  then show ?thesis by (simp only: n sum.case a prod.case)
qed

theorem bubble_archive_is_133_bytes_witness:
  "gmtime 1700000000
     = Some \<lparr>tm_sec = 20, tm_min = 13, tm_hour = 22, tm_mday = 14, tm_mon = 10,
              tm_year = 123\<rparr>
   \<and> (case NpzFile_new True ''ziptest.zip'' of
           Inl e \<Rightarrow> False
         | Inr npz \<Rightarrow>
            (case add_file copy_zlib 1700000000 npz ''bubble.txt''
                    (''Words are loud'' @ [CHR 0x0A]) 0 of
               (r, npz') \<Rightarrow>
                 r = Inr () \<and> length (contents (fs (close npz'))) = 133
                 \<and> field 40 15 (contents (fs (close npz')))
                     = ''Words are loud'' @ [CHR 0x0A]))"
proof -
  have g: "gmtime 1700000000
             = Some \<lparr>tm_sec = 20, tm_min = 13, tm_hour = 22, tm_mday = 14, tm_mon = 10,
                      tm_year = 123\<rparr>"
    by code_simp
  show ?thesis by (rule conjI [OF g bubble_archive_is_133_bytes [OF g]])
qed

lemma NpzFile_new_ziptest: "NpzFile_new True ''ziptest.zip'' = Inr ziptest"
  by (simp add: NpzFile_new_def ziptest_def ends_with_def)

lemma writable_ziptest: "writable (fs ziptest)"
  by (simp add: ziptest_def writable_def good_def)

lemma compress_chunk_error:
  "compress_chunk z strm source dest_len finish = Inl e \<Longrightarrow> e = assertion_failed"
  by (auto simp: compress_chunk_def Let_def split: prod.splits if_splits)

lemma deflate_buffers_error:
  assumes "deflate_buffers z buf0 buf1 total_size = Inl e"
  shows "e = runtime_error ''Failed to initialize zlib'' \<or> e = assertion_failed"
  using assms
  by (auto simp: deflate_buffers_def Let_def
      split: prod.splits if_splits sum.splits option.splits dest: compress_chunk_error)

lemma add_file_from_buffers_long_name:
  assumes "length name > 65535"
  shows "add_file_from_buffers z now s name buf0 buf1 timestamp compression
         = (Inl (runtime_error (''Filename too long: '' @ name)),
            s\<lparr>num_entries := num_entries s + 1\<rparr>)"
  using assms by (simp add: add_file_from_buffers_def Let_def)

lemma add_file_from_buffers_short_name_error:
  assumes "length name \<le> 65535"
    and "fst (add_file_from_buffers z now s name buf0 buf1 timestamp compression) = Inl e"
  shows "e = null_dereference \<or> e = assertion_failed
         \<or> e = runtime_error ''Failed to initialize zlib''"
  using assms
  by (auto simp: add_file_from_buffers_def Let_def
      split: option.splits if_splits sum.splits prod.splits dest: deflate_buffers_error)

lemma timestamp_zero_is_now:
  "add_file_from_buffers z now s name buf0 buf1 0 compression
     = add_file_from_buffers z now s name buf0 buf1 now compression"
  by (simp add: add_file_from_buffers_def)

text \<open>
  C5. A second \<^verbatim>\<open>close\<close>, called explicitly or by the destructor, leaves the bytes of
  the file as the first \<^verbatim>\<open>close\<close> left them, whatever the state of the archive at the
  first \<^verbatim>\<open>close\<close>; the file stays closed and the members other than the stream are
  untouched. \<^verbatim>\<open>close\<close> has no \<^verbatim>\<open>throw\<close> and the stream's exception mask is never set,
  so the model of \<^verbatim>\<open>close\<close> has no error outcome: on the closed file the writes and
  the \<^verbatim>\<open>close\<close> of the stream only set error bits.
\<close>

theorem close_twice_keeps_file:
  "contents (fs (close (close s))) = contents (fs (close s))
   \<and> contents (fs (NpzFile_destructor (close s))) = contents (fs (close s))
   \<and> \<not> is_open (fs (close (close s)))
   \<and> central_dir (close (close s)) = central_dir (close s)
   \<and> num_entries (close (close s)) = num_entries (close s)
   \<and> filename (close (close s)) = filename (close s)"
  by (simp add: NpzFile_destructor_def close_def Let_def ofstream_write_def
      ofstream_close_def good_def)

text \<open>
  C6. A name longer than 65535 bytes makes \<^verbatim>\<open>add_file_from_buffers\<close> throw the
  runtime error \<open>Filename too long\<close>, with the stream exactly as it was before the call
  (no byte written, no bit changed); a name of at most 65535 bytes never gives that
  error.
\<close>

theorem long_name_rejected_before_writing:
  "(length name > 65535 \<longrightarrow>
      fst (add_file_from_buffers z now s name buf0 buf1 timestamp compression)
        = Inl (runtime_error (''Filename too long: '' @ name))
      \<and> fs (snd (add_file_from_buffers z now s name buf0 buf1 timestamp compression)) = fs s)
   \<and> (length name \<le> 65535 \<longrightarrow>
      fst (add_file_from_buffers z now s name buf0 buf1 timestamp compression)
        \<noteq> Inl (runtime_error (''Filename too long: '' @ name)))"
proof (intro conjI impI)
  assume l: "length name > 65535"
  show "fst (add_file_from_buffers z now s name buf0 buf1 timestamp compression)
        = Inl (runtime_error (''Filename too long: '' @ name))"
    by (simp add: add_file_from_buffers_long_name [OF l])
  show "fs (snd (add_file_from_buffers z now s name buf0 buf1 timestamp compression)) = fs s"
    by (simp add: add_file_from_buffers_long_name [OF l])
next
  assume l: "length name \<le> 65535"
  show "fst (add_file_from_buffers z now s name buf0 buf1 timestamp compression)
        \<noteq> Inl (runtime_error (''Filename too long: '' @ name))"
  proof
    assume "fst (add_file_from_buffers z now s name buf0 buf1 timestamp compression)
        = Inl (runtime_error (''Filename too long: '' @ name))"
    from add_file_from_buffers_short_name_error [OF l this]
    show False by simp
  qed
qed

theorem long_name_rejected_before_writing_witness:
  "length (replicate 65536 (CHR ''a'')) > 65535
   \<and> fst (add_file_from_buffers copy_zlib 1700000000 ziptest (replicate 65536 (CHR ''a''))
             ''x'' None 0 STORED)
       = Inl (runtime_error (''Filename too long: '' @ replicate 65536 (CHR ''a'')))
   \<and> fs (snd (add_file_from_buffers copy_zlib 1700000000 ziptest
                 (replicate 65536 (CHR ''a'')) ''x'' None 0 STORED)) = fs ziptest
   \<and> length ''bubble.txt'' \<le> 65535
   \<and> fst (add_file_from_buffers copy_zlib 1700000000 ziptest ''bubble.txt''
             ''x'' None 0 STORED)
       \<noteq> Inl (runtime_error (''Filename too long: '' @ ''bubble.txt''))"
  using long_name_rejected_before_writing
          [of "replicate 65536 (CHR ''a'')" copy_zlib 1700000000 ziptest "''x''" None 0 STORED]
        long_name_rejected_before_writing
          [of "''bubble.txt''" copy_zlib 1700000000 ziptest "''x''" None 0 STORED]
  by simp

lemma le_bytes2:
  fixes n :: nat
  assumes "n < 65536"
  shows "n mod 256 + 256 * (n div 256 mod 256) = n"
proof -
  have "n div 256 mod 256 = n div 256"
    using assms by (simp add: less_mult_imp_div_less)
  then show ?thesis by simp
qed

lemma le_bytes4:
  fixes n :: nat
  assumes "n < 4294967296"
  shows "n mod 256 + 256 * (n div 256 mod 256) + 65536 * (n div 65536 mod 256)
         + 16777216 * (n div 16777216 mod 256) = n"
proof -
  have a: "n = n mod 256 + 256 * (n div 256)" by simp
  have b: "n div 256 = n div 256 mod 256 + 256 * (n div 65536)"
    using div_mult2_eq [of n 256 256] by simp
  have c: "n div 65536 = n div 65536 mod 256 + 256 * (n div 16777216)"
    using div_mult2_eq [of n 65536 256] by simp
  have d: "n div 16777216 mod 256 = n div 16777216"
    using assms by (simp add: less_mult_imp_div_less)
  show ?thesis using a b c d by linarith
qed

lemma read2_write2 [simp]: "read2 (write2 v) = v"
proof -
  have b: "unat v < 65536" using unsigned_less [of v, where 'a = nat] by simp
  have "read2 (write2 v) = of_nat (unat v mod 256 + 256 * (unat v div 256 mod 256))"
    by (simp add: read2_def write2_def del: of_nat_add of_nat_mult)
  also have "\<dots> = of_nat (unat v)"
    by (simp only: le_bytes2 [OF b])
  finally show ?thesis by simp
qed

lemma read4_write4 [simp]: "read4 (write4 v) = v"
proof -
  have b: "unat v < 4294967296" using unsigned_less [of v, where 'a = nat] by simp
  have "read4 (write4 v) = of_nat (unat v mod 256 + 256 * (unat v div 256 mod 256)
           + 65536 * (unat v div 65536 mod 256) + 16777216 * (unat v div 16777216 mod 256))"
    by (simp add: read4_def write4_def del: of_nat_add of_nat_mult)
  also have "\<dots> = of_nat (unat v)"
    by (simp only: le_bytes4 [OF b])
  finally show ?thesis by simp
qed

lemma field_append_left:
  "off + n \<le> length xs \<Longrightarrow> field off n (xs @ ys) = field off n xs"
  by (simp add: field_def)

lemma field_append_right:
  "length xs \<le> off \<Longrightarrow> field off n (xs @ ys) = field (off - length xs) n ys"
  by (simp add: field_def)

lemma field_prefix: "field 0 (length xs) (xs @ ys) = xs"
  by (simp add: field_def)

lemma field_skip: "field (length xs + off) n (xs @ ys) = field off n ys"
  by (simp add: field_def)

lemma local_header_time_field:
  "field 6 2 (local_header_bytes h @ rest) = write2 (last_mod_file_time h)"
  by (simp add: local_header_bytes_def field_def)

lemma local_header_date_field:
  "field 8 2 (local_header_bytes h @ rest) = write2 (last_mod_file_date h)"
  by (simp add: local_header_bytes_def field_def)

lemma uint_word16_of_int: "uint (word_of_int x :: 16 word) = x mod 65536"
  by (simp add: uint_word_of_int)

lemma gmtime_ranges:
  assumes "gmtime t = Some utctm"
  shows "0 \<le> tm_sec utctm" "tm_sec utctm < 60" "0 \<le> tm_min utctm" "tm_min utctm < 60"
    "0 \<le> tm_hour utctm" "tm_hour utctm < 24"
proof -
  have s: "0 \<le> t mod 86400" "t mod 86400 < 86400" by simp_all
  have h: "t mod 86400 div 3600 < 24" using s by arith
  have h0: "0 \<le> t mod 86400 div 3600" using s(1) by (simp add: pos_imp_zdiv_nonneg_iff)
  have m0: "0 \<le> t mod 86400 div 60 mod 60" by simp
  show "0 \<le> tm_sec utctm" "tm_sec utctm < 60" "0 \<le> tm_min utctm" "tm_min utctm < 60"
    "0 \<le> tm_hour utctm" "tm_hour utctm < 24"
    using assms h h0
    by (auto simp: gmtime_def Let_def split: prod.splits if_splits)
qed

lemma dos_time_value:
  assumes "gmtime t = Some utctm"
  shows "uint (dos_time utctm) = tm_hour utctm * 2048 + tm_min utctm * 32 + tm_sec utctm div 2"
proof -
  note r = gmtime_ranges [OF assms]
  have sd: "tm_sec utctm sdiv 2 = tm_sec utctm div 2"
    using r(1) by (simp add: signed_divide_int_def sgn_if)
  have lo: "0 \<le> tm_hour utctm * 2048 + tm_min utctm * 32 + tm_sec utctm div 2"
    using r by simp
  have hi: "tm_hour utctm * 2048 + tm_min utctm * 32 + tm_sec utctm div 2 < 65536"
    using r by simp
  have "uint (dos_time utctm)
          = (tm_hour utctm * 2048 + tm_min utctm * 32 + tm_sec utctm div 2) mod 65536"
    unfolding dos_time_def sd push_bit_eq_mult uint_word16_of_int by simp
  then show ?thesis using lo hi by simp
qed

lemma dos_date_value:
  "uint (dos_date utctm)
     = ((tm_year utctm - 80) * 512 + (tm_mon utctm + 1) * 32 + tm_mday utctm) mod 65536"
  unfolding dos_date_def push_bit_eq_mult uint_word16_of_int by simp


lemma fill_local_header_fields [simp]:
  "last_mod_file_time (fill_local_header utctm fl tsz) = dos_time utctm"
  "last_mod_file_date (fill_local_header utctm fl tsz) = dos_date utctm"
  "filename_length (fill_local_header utctm fl tsz) = ucast fl"
  "uncompressed_size (fill_local_header utctm fl tsz) = tsz"
  "compression_method (fill_local_header utctm fl tsz) = 0"
  "crc32 (fill_local_header utctm fl tsz) = 0"
  "extra_field_length (fill_local_header utctm fl tsz) = 0"
  by (simp_all add: fill_local_header_def ZipLocalFileHeader_init_def Let_def)

lemma add_file_from_buffers_success:
  assumes "fst (add_file_from_buffers z now s name buf0 buf1 timestamp compression) = Inr n"
    and "writable (fs s)"
  shows "\<exists>utctm h compressed.
     length name \<le> 65535
     \<and> gmtime (if timestamp = 0 then now else timestamp) = Some utctm
     \<and> last_mod_file_time h = dos_time utctm
     \<and> last_mod_file_date h = dos_date utctm
     \<and> compression_method h = method_code compression
     \<and> filename_length h = ucast (of_nat (length name) :: 32 word)
     \<and> extra_field_length h = 0
     \<and> n = unat (compressed_size h)
     \<and> snd (add_file_from_buffers z now s name buf0 buf1 timestamp compression)
         = s\<lparr>num_entries := num_entries s + 1,
             fs := (fs s)\<lparr>contents := contents (fs s) @ write4 ZIP_LOCAL_FILE_HEADER_SIG
                     @ local_header_bytes h @ name
                     @ payload_bytes compression compressed buf0 buf1\<rparr>,
             central_dir := central_dir s
                @ central_directory_record h (of_nat (length (contents (fs s)))) name\<rparr>"
proof -
  define ts where "ts = (if timestamp = 0 then now else timestamp)"
  define tsz where "tsz = (of_nat (length buf0
                         + (case buf1 of None \<Rightarrow> 0 | Some b1 \<Rightarrow> length b1)) :: 32 word)"
  have l: "length name \<le> 65535"
    using assms(1) by (auto simp: add_file_from_buffers_def Let_def split: if_splits)
  obtain utctm where g: "gmtime ts = Some utctm"
    using assms(1) l unfolding ts_def
    by (cases "gmtime (if timestamp = 0 then now else timestamp)")
       (auto simp: add_file_from_buffers_def Let_def)
  obtain h compressed where h: "last_mod_file_time h = dos_time utctm"
      "last_mod_file_date h = dos_date utctm"
      "compression_method h = method_code compression"
      "filename_length h = ucast (of_nat (length name) :: 32 word)"
      "extra_field_length h = 0"
      and r: "add_file_from_buffers z now s name buf0 buf1 timestamp compression
         = (Inr (unat (compressed_size h)),
            s\<lparr>num_entries := num_entries s + 1,
             fs := (fs s)\<lparr>contents := contents (fs s) @ write4 ZIP_LOCAL_FILE_HEADER_SIG
                     @ local_header_bytes h @ name
                     @ payload_bytes compression compressed buf0 buf1\<rparr>,
             central_dir := central_dir s
                @ central_directory_record h (of_nat (length (contents (fs s)))) name\<rparr>)"
  proof (cases compression)
    case STORED
    define h where "h = (fill_local_header utctm (of_nat (length name)) tsz)
               \<lparr>compressed_size := tsz\<rparr>"
    have "add_file_from_buffers z now s name buf0 buf1 timestamp compression
         = (Inr (unat (compressed_size h)),
            s\<lparr>num_entries := num_entries s + 1,
             fs := (fs s)\<lparr>contents := contents (fs s) @ write4 ZIP_LOCAL_FILE_HEADER_SIG
                     @ local_header_bytes h @ name
                     @ payload_bytes compression [] buf0 buf1\<rparr>,
             central_dir := central_dir s
                @ central_directory_record h (of_nat (length (contents (fs s)))) name\<rparr>)"
      unfolding STORED h_def tsz_def
      using add_file_from_buffers_stored [OF l g [unfolded ts_def] assms(2), of z buf0 buf1]
      by (simp add: Let_def)
    moreover have "last_mod_file_time h = dos_time utctm"
      "last_mod_file_date h = dos_date utctm"
      "compression_method h = method_code compression"
      "filename_length h = ucast (of_nat (length name) :: 32 word)"
      "extra_field_length h = 0"
      by (simp_all add: h_def STORED)
    ultimately show ?thesis using that by blast
  next
    case DEFLATE
    obtain compressed cs where d: "deflate_buffers z buf0 buf1 tsz = Inr (compressed, cs)"
      using assms(1) l g unfolding DEFLATE tsz_def ts_def
      by (cases "deflate_buffers z buf0 buf1 (of_nat (length buf0
                         + (case buf1 of None \<Rightarrow> 0 | Some b1 \<Rightarrow> length b1)))")
         (auto simp: add_file_from_buffers_def Let_def)
    define h where "h = (fill_local_header utctm (of_nat (length name)) tsz)
               \<lparr>compression_method := method_code DEFLATE, compressed_size := of_nat cs\<rparr>"
    have "add_file_from_buffers z now s name buf0 buf1 timestamp compression
         = (Inr (unat (compressed_size h)),
            s\<lparr>num_entries := num_entries s + 1,
             fs := (fs s)\<lparr>contents := contents (fs s) @ write4 ZIP_LOCAL_FILE_HEADER_SIG
                     @ local_header_bytes h @ name
                     @ payload_bytes compression compressed buf0 buf1\<rparr>,
             central_dir := central_dir s
                @ central_directory_record h (of_nat (length (contents (fs s)))) name\<rparr>)"
      unfolding DEFLATE h_def
      using l g [unfolded ts_def] d [unfolded tsz_def]
      by (simp add: add_file_from_buffers_def Let_def tsz_def
          write_local_entry_writable [OF assms(2)] tellp_writable [OF assms(2)])
    moreover have "last_mod_file_time h = dos_time utctm"
      "last_mod_file_date h = dos_date utctm"
      "compression_method h = method_code compression"
      "filename_length h = ucast (of_nat (length name) :: 32 word)"
      "extra_field_length h = 0"
      by (simp_all add: h_def DEFLATE)
    ultimately show ?thesis using that by blast
  qed
  have n: "n = unat (compressed_size h)"
    using assms(1) r by simp
  have sn: "snd (add_file_from_buffers z now s name buf0 buf1 timestamp compression)
         = s\<lparr>num_entries := num_entries s + 1,
             fs := (fs s)\<lparr>contents := contents (fs s) @ write4 ZIP_LOCAL_FILE_HEADER_SIG
                     @ local_header_bytes h @ name
                     @ payload_bytes compression compressed buf0 buf1\<rparr>,
             central_dir := central_dir s
                @ central_directory_record h (of_nat (length (contents (fs s)))) name\<rparr>"
    using r by simp
  show ?thesis
    using l g [unfolded ts_def] h n sn by blast
qed

lemma entry_time_date_fields:
  assumes "out = pre @ write4 sig @ local_header_bytes h @ rest"
  shows "field (length pre + 10) 2 out = write2 (last_mod_file_time h)"
    and "field (length pre + 12) 2 out = write2 (last_mod_file_date h)"
  using local_header_time_field [of h rest] local_header_date_field [of h rest]
  by (simp_all add: assms field_def)

lemma gmtime_2108:
  "gmtime 4354819200
     = Some \<lparr>tm_sec = 0, tm_min = 0, tm_hour = 0, tm_mday = 1, tm_mon = 0, tm_year = 208\<rparr>"
  by code_simp

text \<open>
  C7, as amended. The two fields are 16-bit. For an entry added with a timestamp other
  than 0 to an archive that can be written to, the time field at offset 10 of the entry
  is \<open>hour * 2048 + minute * 32 + second div 2\<close>, and the date field at offset 12 is
  \<open>(year - 1980) * 512 + month * 32 + day\<close> reduced modulo 65536, over the UTC
  decomposition of the timestamp. The date field is the value itself exactly when that
  value lies between 0 and 65535.
\<close>

theorem dos_fields_of_entry:
  assumes "writable (fs s)" and "timestamp \<noteq> 0"
    and "fst (add_file_from_buffers z now s name buf0 buf1 timestamp compression) = Inr n"
  shows "\<exists>utctm. gmtime timestamp = Some utctm \<and>
    (let p = length (contents (fs s));
         out = contents (fs (snd (add_file_from_buffers z now s name buf0 buf1 timestamp
                                    compression)));
         time = uint (read2 (field (p + 10) 2 out));
         date = uint (read2 (field (p + 12) 2 out));
         date_spec = msdos_date_spec (tm_year utctm + 1900) (tm_mon utctm + 1) (tm_mday utctm)
     in time = msdos_time_spec (tm_hour utctm) (tm_min utctm) (tm_sec utctm)
        \<and> date = date_spec mod 65536
        \<and> (0 \<le> date_spec \<and> date_spec < 65536 \<longrightarrow> date = date_spec))"
proof -
  from add_file_from_buffers_success [OF assms(3) assms(1)] assms(2)
  obtain utctm h compressed where g: "gmtime timestamp = Some utctm"
    and h: "last_mod_file_time h = dos_time utctm" "last_mod_file_date h = dos_date utctm"
    and sn: "snd (add_file_from_buffers z now s name buf0 buf1 timestamp compression)
         = s\<lparr>num_entries := num_entries s + 1,
             fs := (fs s)\<lparr>contents := contents (fs s) @ write4 ZIP_LOCAL_FILE_HEADER_SIG
                     @ local_header_bytes h @ name
                     @ payload_bytes compression compressed buf0 buf1\<rparr>,
             central_dir := central_dir s
                @ central_directory_record h (of_nat (length (contents (fs s)))) name\<rparr>"
    by auto
  define out where "out = contents (fs (snd (add_file_from_buffers z now s name buf0 buf1
      timestamp compression)))"
  have o: "out = contents (fs s) @ write4 ZIP_LOCAL_FILE_HEADER_SIG
                     @ local_header_bytes h @ (name
                     @ payload_bytes compression compressed buf0 buf1)"
    by (simp add: out_def sn)
  note f = entry_time_date_fields [OF o]
  have t: "uint (read2 (field (length (contents (fs s)) + 10) 2 out))
            = msdos_time_spec (tm_hour utctm) (tm_min utctm) (tm_sec utctm)"
    by (simp add: f h dos_time_value [OF g] msdos_time_spec_def)
  have d: "uint (read2 (field (length (contents (fs s)) + 12) 2 out))
            = msdos_date_spec (tm_year utctm + 1900) (tm_mon utctm + 1) (tm_mday utctm) mod 65536"
    by (simp add: f h dos_date_value msdos_date_spec_def)
  have "let p = length (contents (fs s));
         time = uint (read2 (field (p + 10) 2 out));
         date = uint (read2 (field (p + 12) 2 out));
         date_spec = msdos_date_spec (tm_year utctm + 1900) (tm_mon utctm + 1) (tm_mday utctm)
     in time = msdos_time_spec (tm_hour utctm) (tm_min utctm) (tm_sec utctm)
        \<and> date = date_spec mod 65536
        \<and> (0 \<le> date_spec \<and> date_spec < 65536 \<longrightarrow> date = date_spec)"
    unfolding Let_def using t d by simp
  then show ?thesis using g unfolding out_def Let_def by blast
qed


text \<open>
  C7 as stated fails for the timestamp 4354819200, which is 2108-01-01T00:00:00Z: the
  claimed date value is 65569, the field written is 33.
\<close>

theorem dos_date_2108_counterexample:
  "writable (fs ziptest) \<and> (4354819200::int) \<noteq> 0
   \<and> gmtime 4354819200
       = Some \<lparr>tm_sec = 0, tm_min = 0, tm_hour = 0, tm_mday = 1, tm_mon = 0, tm_year = 208\<rparr>
   \<and> fst (add_file_from_buffers copy_zlib 1700000000 ziptest ''x'' [] None 4354819200 STORED)
       = Inr 0
   \<and> uint (read2 (field 12 2 (contents (fs (snd
         (add_file_from_buffers copy_zlib 1700000000 ziptest ''x'' [] None 4354819200
            STORED)))))) = 33
   \<and> msdos_date_spec (208 + 1900) (0 + 1) 1 = 65569
   \<and> uint (read2 (field 12 2 (contents (fs (snd
         (add_file_from_buffers copy_zlib 1700000000 ziptest ''x'' [] None 4354819200
            STORED))))))
       \<noteq> msdos_date_spec (208 + 1900) (0 + 1) 1"
proof -
  have l: "length ''x'' \<le> 65535" by simp
  have g: "gmtime (if (4354819200::int) = 0 then 1700000000 else 4354819200)
     = Some \<lparr>tm_sec = 0, tm_min = 0, tm_hour = 0, tm_mday = 1, tm_mon = 0, tm_year = 208\<rparr>"
    using gmtime_2108 by simp
  note a = add_file_from_buffers_stored [OF l g writable_ziptest, of copy_zlib "[]" None,
      unfolded Let_def]
  have c: "contents (fs ziptest) = []" by (simp add: ziptest_def)
  have r: "fst (add_file_from_buffers copy_zlib 1700000000 ziptest ''x'' [] None 4354819200
              STORED) = Inr 0"
    unfolding a by simp
  have o: "contents (fs (snd (add_file_from_buffers copy_zlib 1700000000 ziptest ''x'' [] None
              4354819200 STORED)))
       = [] @ write4 ZIP_LOCAL_FILE_HEADER_SIG
         @ local_header_bytes ((fill_local_header
              \<lparr>tm_sec = 0, tm_min = 0, tm_hour = 0, tm_mday = 1, tm_mon = 0, tm_year = 208\<rparr>
              (of_nat (length ''x'')) (of_nat (length ([]::bytes) + (case None :: bytes option of None \<Rightarrow> 0 | Some b1 \<Rightarrow> length b1))))\<lparr>compressed_size := of_nat (length ([]::bytes) + (case None :: bytes option of None \<Rightarrow> 0 | Some b1 \<Rightarrow> length b1))\<rparr>)
         @ (''x'' @ payload_bytes STORED [] [] None)"
    unfolding a by (simp add: c)
  have d: "dos_date \<lparr>tm_sec = 0, tm_min = 0, tm_hour = 0, tm_mday = 1, tm_mon = 0, tm_year = 208\<rparr> = 33"
    by (simp add: dos_date_def)
  have f: "uint (read2 (field 12 2 (contents (fs (snd
         (add_file_from_buffers copy_zlib 1700000000 ziptest ''x'' [] None 4354819200
            STORED)))))) = 33"
    using entry_time_date_fields(2) [OF o] by (simp add: d)
  have m: "msdos_date_spec (208 + 1900) (0 + 1) 1 = 65569"
    by (simp add: msdos_date_spec_def)
  show ?thesis using writable_ziptest gmtime_2108 r f m by simp
qed

lemma gmtime_2023:
  "gmtime 1700000000
     = Some \<lparr>tm_sec = 20, tm_min = 13, tm_hour = 22, tm_mday = 14, tm_mon = 10,
              tm_year = 123\<rparr>"
  by code_simp

theorem dos_fields_of_entry_witness:
  "writable (fs ziptest) \<and> (1700000000::int) \<noteq> 0
   \<and> fst (add_file_from_buffers copy_zlib 1 ziptest ''x'' [] None 1700000000 STORED) = Inr 0
   \<and> gmtime 1700000000
       = Some \<lparr>tm_sec = 20, tm_min = 13, tm_hour = 22, tm_mday = 14, tm_mon = 10,
                tm_year = 123\<rparr>
   \<and> 0 \<le> msdos_date_spec 2023 11 14 \<and> msdos_date_spec 2023 11 14 < 65536
   \<and> uint (read2 (field 10 2 (contents (fs (snd
         (add_file_from_buffers copy_zlib 1 ziptest ''x'' [] None 1700000000 STORED))))))
       = msdos_time_spec 22 13 20
   \<and> uint (read2 (field 12 2 (contents (fs (snd
         (add_file_from_buffers copy_zlib 1 ziptest ''x'' [] None 1700000000 STORED))))))
       = msdos_date_spec 2023 11 14"
proof -
  have l: "length ''x'' \<le> 65535" by simp
  have n: "(1700000000::int) \<noteq> 0" by simp
  have g: "gmtime (if (1700000000::int) = 0 then 1 else 1700000000)
     = Some \<lparr>tm_sec = 20, tm_min = 13, tm_hour = 22, tm_mday = 14, tm_mon = 10,
              tm_year = 123\<rparr>"
    using gmtime_2023 by simp
  have r: "fst (add_file_from_buffers copy_zlib 1 ziptest ''x'' [] None 1700000000 STORED)
             = Inr 0"
    unfolding add_file_from_buffers_stored [OF l g writable_ziptest, of copy_zlib "[]" None,
      unfolded Let_def]
    by simp
  have c: "length (contents (fs ziptest)) = 0" by (simp add: ziptest_def)
  have m: "0 \<le> msdos_date_spec 2023 11 14" "msdos_date_spec 2023 11 14 < 65536"
    by (simp_all add: msdos_date_spec_def)
  from dos_fields_of_entry [OF writable_ziptest n r]
  obtain utctm where u: "gmtime 1700000000 = Some utctm"
    and f: "uint (read2 (field (length (contents (fs ziptest)) + 10) 2 (contents (fs (snd
         (add_file_from_buffers copy_zlib 1 ziptest ''x'' [] None 1700000000 STORED))))))
       = msdos_time_spec (tm_hour utctm) (tm_min utctm) (tm_sec utctm)"
      "0 \<le> msdos_date_spec (tm_year utctm + 1900) (tm_mon utctm + 1) (tm_mday utctm)
        \<and> msdos_date_spec (tm_year utctm + 1900) (tm_mon utctm + 1) (tm_mday utctm) < 65536
       \<longrightarrow> uint (read2 (field (length (contents (fs ziptest)) + 12) 2 (contents (fs (snd
         (add_file_from_buffers copy_zlib 1 ziptest ''x'' [] None 1700000000 STORED))))))
       = msdos_date_spec (tm_year utctm + 1900) (tm_mon utctm + 1) (tm_mday utctm)"
    unfolding Let_def by blast
  have e: "utctm = \<lparr>tm_sec = 20, tm_min = 13, tm_hour = 22, tm_mday = 14, tm_mon = 10,
              tm_year = 123\<rparr>"
    using u gmtime_2023 by simp
  show ?thesis
    using writable_ziptest n r gmtime_2023 m f unfolding e c by simp
qed

lemma add_success_grows:
  assumes "fst (add_file_from_buffers z now s name buf0 buf1 timestamp compression) = Inr n"
    and "writable (fs s)"
  shows "writable (fs (snd (add_file_from_buffers z now s name buf0 buf1 timestamp
                               compression)))"
    and "\<exists>a. contents (fs (snd (add_file_from_buffers z now s name buf0 buf1 timestamp
                compression))) = contents (fs s) @ a"
    and "\<exists>b. central_dir (snd (add_file_from_buffers z now s name buf0 buf1 timestamp
                compression)) = central_dir s @ b"
  using add_file_from_buffers_success [OF assms] assms(2)
  by auto

lemma add_entries_grows:
  assumes "add_entries z s es = Inr s'" and "writable (fs s)"
  shows "writable (fs s') \<and> (\<exists>a. contents (fs s') = contents (fs s) @ a)
         \<and> (\<exists>b. central_dir s' = central_dir s @ b)"
  using assms
proof (induction es arbitrary: s)
  case Nil
  then show ?case by simp
next
  case (Cons e es)
  obtain now name buf0 buf1 timestamp compression
    where e: "e = (now, name, buf0, buf1, timestamp, compression)"
    by (cases e)
  obtain r s1 where a: "add_file_from_buffers z now s name buf0 buf1 timestamp compression
      = (r, s1)"
    by (cases "add_file_from_buffers z now s name buf0 buf1 timestamp compression")
  obtain n where r: "r = Inr n" and rest: "add_entries z s1 es = Inr s'"
    using Cons.prems(1) unfolding e by (cases r) (simp_all add: a)
  have f: "fst (add_file_from_buffers z now s name buf0 buf1 timestamp compression) = Inr n"
    and s1: "s1 = snd (add_file_from_buffers z now s name buf0 buf1 timestamp compression)"
    by (simp_all add: a r)
  note g = add_success_grows [OF f Cons.prems(2), folded s1]
  from Cons.IH [OF rest g(1)] g(2) g(3) show ?case by auto
qed

lemma eocd_size_field:
  "field 12 4 (eocd_bytes e) = write4 (central_directory_size e)"
  by (simp add: eocd_bytes_def field_def)

lemma eocd_offset_field:
  "field 16 4 (eocd_bytes e) = write4 (central_directory_offset e)"
  by (simp add: eocd_bytes_def field_def)

lemma close_eocd_fields:
  assumes "writable (fs s)"
  shows "central_directory_size (close_eocd s) = of_nat (length (central_dir s))"
    and "central_directory_offset (close_eocd s) = of_nat (length (contents (fs s)))"
    and "num_entries_total (close_eocd s) = num_entries s"
    and "num_entries_on_disk (close_eocd s) = num_entries s"
  by (simp_all add: close_eocd_def tellp_writable [OF assms])

lemma unat_word32_of_nat: "unat (of_nat n :: 32 word) = n mod 4294967296"
  by (simp add: unat_of_nat)

lemma close_output_fields:
  assumes "writable (fs s)"
  defines "out \<equiv> contents (fs (close s))"
    and "p \<equiv> length (contents (fs s))"
    and "c \<equiv> length (central_dir s)"
  shows "length out = p + c + 22"
    and "take p out = contents (fs s)"
    and "field p c out = central_dir s"
    and "unat (read4 (field (p + c + 12) 4 out)) = c mod 4294967296"
    and "unat (read4 (field (p + c + 16) 4 out)) = p mod 4294967296"
proof -
  have o: "out = contents (fs s) @ central_dir s @ eocd_bytes (close_eocd s)"
    unfolding out_def by (rule close_writable [OF assms(1)])
  show "length out = p + c + 22" by (simp add: o p_def c_def)
  show "take p out = contents (fs s)" by (simp add: o p_def)
  show "field p c out = central_dir s" by (simp add: o p_def c_def field_def)
  have "field (p + c + 12) 4 out = field 12 4 (eocd_bytes (close_eocd s))"
    by (simp add: o p_def c_def field_def)
  then show "unat (read4 (field (p + c + 12) 4 out)) = c mod 4294967296"
    by (simp add: eocd_size_field close_eocd_fields [OF assms(1)] unat_word32_of_nat c_def)
  have "field (p + c + 16) 4 out = field 16 4 (eocd_bytes (close_eocd s))"
    by (simp add: o p_def c_def field_def)
  then show "unat (read4 (field (p + c + 16) 4 out)) = p mod 4294967296"
    by (simp add: eocd_offset_field close_eocd_fields [OF assms(1)] unat_word32_of_nat p_def)
qed

text \<open>
  C2, as amended. The two fields are 32-bit. After any sequence of successful additions
  to a new archive, \<^verbatim>\<open>close\<close> appends the accumulated central directory and the 22
  bytes of the end-of-directory record to the file; the size field of that record is the
  length of the accumulated central directory modulo \<open>2 ^ 32\<close>, the offset field is the
  position at which the central directory was written modulo \<open>2 ^ 32\<close>. Each field is
  the length or position itself when that is below \<open>2 ^ 32\<close>.
\<close>

theorem eocd_locates_central_directory:
  assumes "NpzFile_new True fname = Inr s0" and "add_entries z s0 es = Inr s"
  shows "let out = contents (fs (close s));
             p = length (contents (fs s));
             c = length (central_dir s);
             size_field = unat (read4 (field (p + c + 12) 4 out));
             offset_field = unat (read4 (field (p + c + 16) 4 out))
         in length out = p + c + 22 \<and> take p out = contents (fs s)
            \<and> field p c out = central_dir s
            \<and> size_field = c mod 4294967296 \<and> offset_field = p mod 4294967296
            \<and> (c < 4294967296 \<longrightarrow> size_field = c)
            \<and> (p < 4294967296 \<longrightarrow> offset_field = p)"
proof -
  have w: "writable (fs s)"
    using add_entries_grows [OF assms(2) NpzFile_new_fresh(1) [OF assms(1)]] by simp
  show ?thesis
    unfolding Let_def using close_output_fields [OF w] by simp
qed




lemma add_stored_effect:
  fixes z :: "'z zlib" and buf0 :: bytes
  assumes "length name \<le> 65535"
    and "gmtime (if timestamp = 0 then now else timestamp) = Some utctm"
    and "writable (fs s)"
  defines "r \<equiv> add_file_from_buffers z now s name buf0 None timestamp STORED"
  shows "fst r = Inr (length buf0 mod 4294967296)"
    and "writable (fs (snd r))"
    and "length (contents (fs (snd r))) = length (contents (fs s)) + 30 + length name + length buf0"
    and "length (central_dir (snd r)) = length (central_dir s) + 46 + length name"
    and "num_entries (snd r) = num_entries s + 1"
  unfolding r_def add_file_from_buffers_stored [OF assms(1,2,3)] Let_def
  by (simp_all add: payload_bytes_def unat_word32_of_nat assms(3))

lemma ziptest_lengths:
  "length (contents (fs ziptest)) = 0" "length (central_dir ziptest) = 0"
  by (simp_all add: ziptest_def)

lemma add_entries_single:
  assumes "fst (add_file_from_buffers z now s name buf0 buf1 timestamp compression) = Inr n"
  shows "add_entries z s [(now, name, buf0, buf1, timestamp, compression)]
         = Inr (snd (add_file_from_buffers z now s name buf0 buf1 timestamp compression))"
  using assms
  by (cases "add_file_from_buffers z now s name buf0 buf1 timestamp compression") simp

lemma big_archive_facts:
  shows "fst (add_file_from_buffers copy_zlib 1 ziptest ''x''
            (replicate 4294967296 (CHR 0x00)) None 1700000000 STORED) = Inr 0"
    and "writable (fs big_archive)"
    and "length (contents (fs big_archive)) = 4294967327"
    and "length (central_dir big_archive) = 47"
proof -
  have l: "length ''x'' \<le> 65535" by simp
  have g: "gmtime (if (1700000000::int) = 0 then 1 else 1700000000)
     = Some \<lparr>tm_sec = 20, tm_min = 13, tm_hour = 22, tm_mday = 14, tm_mon = 10,
              tm_year = 123\<rparr>"
    using gmtime_2023 by simp
  note e = add_stored_effect [OF l g writable_ziptest, of copy_zlib
      "replicate 4294967296 (CHR 0x00)", folded big_archive_def]
  show "fst (add_file_from_buffers copy_zlib 1 ziptest ''x''
            (replicate 4294967296 (CHR 0x00)) None 1700000000 STORED) = Inr 0"
    using e(1) by simp
  show "writable (fs big_archive)" by (rule e(2))
  show "length (contents (fs big_archive)) = 4294967327"
    using e(3) by (simp add: ziptest_lengths)
  show "length (central_dir big_archive) = 47"
    using e(4) by (simp add: ziptest_lengths)
qed

text \<open>
  C2 as stated fails once the file has reached \<open>2 ^ 32\<close> bytes: after one stored entry
  of \<open>2 ^ 32\<close> bytes the central directory is written at position 4294967327, and the
  offset field of the end-of-directory record is 31.
\<close>

theorem eocd_offset_wraps_counterexample:
  "NpzFile_new True ''ziptest.zip'' = Inr ziptest
   \<and> add_entries copy_zlib ziptest
         [(1, ''x'', replicate 4294967296 (CHR 0x00), None, 1700000000, STORED)]
       = Inr big_archive
   \<and> length (contents (fs big_archive)) = 4294967327
   \<and> length (central_dir big_archive) = 47
   \<and> unat (read4 (field (4294967327 + 47 + 16) 4 (contents (fs (close big_archive))))) = 31"
proof -
  have a: "add_entries copy_zlib ziptest
         [(1, ''x'', replicate 4294967296 (CHR 0x00), None, 1700000000, STORED)]
       = Inr big_archive"
    unfolding big_archive_def by (rule add_entries_single [OF big_archive_facts(1)])
  have "unat (read4 (field (4294967327 + 47 + 16) 4 (contents (fs (close big_archive))))) = 31"
    using close_output_fields(5) [OF big_archive_facts(2)]
    unfolding big_archive_facts(3,4) by simp
  then show ?thesis
    using NpzFile_new_ziptest a big_archive_facts(3,4) by simp
qed




lemma bubble_archive_facts:
  shows "fst (add_file_from_buffers copy_zlib 1 ziptest ''bubble.txt''
            (''Words are loud'' @ [CHR 0x0A]) None 1700000000 STORED) = Inr 15"
    and "writable (fs bubble_archive)"
    and "length (contents (fs bubble_archive)) = 55"
    and "length (central_dir bubble_archive) = 56"
proof -
  have l: "length ''bubble.txt'' \<le> 65535" by simp
  have g: "gmtime (if (1700000000::int) = 0 then 1 else 1700000000)
     = Some \<lparr>tm_sec = 20, tm_min = 13, tm_hour = 22, tm_mday = 14, tm_mon = 10,
              tm_year = 123\<rparr>"
    using gmtime_2023 by simp
  note e = add_stored_effect [OF l g writable_ziptest, of copy_zlib
      "''Words are loud'' @ [CHR 0x0A]", folded bubble_archive_def]
  show "fst (add_file_from_buffers copy_zlib 1 ziptest ''bubble.txt''
            (''Words are loud'' @ [CHR 0x0A]) None 1700000000 STORED) = Inr 15"
    using e(1) by simp
  show "writable (fs bubble_archive)" by (rule e(2))
  show "length (contents (fs bubble_archive)) = 55"
    using e(3) by (simp add: ziptest_lengths)
  show "length (central_dir bubble_archive) = 56"
    using e(4) by (simp add: ziptest_lengths)
qed

theorem eocd_locates_central_directory_witness:
  "NpzFile_new True ''ziptest.zip'' = Inr ziptest
   \<and> add_entries copy_zlib ziptest
         [(1, ''bubble.txt'', ''Words are loud'' @ [CHR 0x0A], None, 1700000000, STORED)]
       = Inr bubble_archive
   \<and> length (contents (fs bubble_archive)) = 55
   \<and> length (central_dir bubble_archive) = 56
   \<and> (56::nat) < 4294967296 \<and> (55::nat) < 4294967296
   \<and> unat (read4 (field (55 + 56 + 12) 4 (contents (fs (close bubble_archive))))) = 56
   \<and> unat (read4 (field (55 + 56 + 16) 4 (contents (fs (close bubble_archive))))) = 55"
proof -
  have a: "add_entries copy_zlib ziptest
         [(1, ''bubble.txt'', ''Words are loud'' @ [CHR 0x0A], None, 1700000000, STORED)]
       = Inr bubble_archive"
    unfolding bubble_archive_def by (rule add_entries_single [OF bubble_archive_facts(1)])
  show ?thesis
    using eocd_locates_central_directory [OF NpzFile_new_ziptest a] NpzFile_new_ziptest a
    unfolding Let_def bubble_archive_facts(3,4) by simp
qed

lemma central_directory_record_fields:
  "field 0 4 (central_directory_record h off name @ rest)
     = write4 ZIP_CENTRAL_DIRECTORY_FILE_HEADER_SIG"
  "field 42 4 (central_directory_record h off name @ rest) = write4 off"
  "field 46 (length name) (central_directory_record h off name @ rest) = name"
  by (simp_all add: central_directory_record_def suffix_bytes_def field_def
      ZipCentralDirectoryFileHeaderSuffix_init_def)

lemma entry_offset_fields:
  assumes "NpzFile_new True fname = Inr s0"
    and "add_entries z s0 earlier = Inr s"
    and "fst (add_file_from_buffers z now s name buf0 buf1 timestamp compression) = Inr n"
    and "add_entries z (snd (add_file_from_buffers z now s name buf0 buf1 timestamp
                               compression)) later = Inr s'"
  shows "let p = length (contents (fs s));
             c = length (central_dir s);
             offset_field = unat (read4 (field (c + 42) 4 (central_dir s')))
         in field p 4 (contents (fs s')) = write4 ZIP_LOCAL_FILE_HEADER_SIG
            \<and> field c 4 (central_dir s') = write4 ZIP_CENTRAL_DIRECTORY_FILE_HEADER_SIG
            \<and> field (c + 46) (length name) (central_dir s') = name
            \<and> offset_field = p mod 4294967296
            \<and> (p < 4294967296 \<longrightarrow> offset_field = p)"
proof -
  define s1 where "s1 = snd (add_file_from_buffers z now s name buf0 buf1 timestamp
                               compression)"
  have w: "writable (fs s)"
    using add_entries_grows [OF assms(2) NpzFile_new_fresh(1) [OF assms(1)]] by simp
  from add_file_from_buffers_success [OF assms(3) w]
  obtain h compressed where
    c1: "contents (fs s1) = contents (fs s) @ write4 ZIP_LOCAL_FILE_HEADER_SIG
                     @ local_header_bytes h @ name
                     @ payload_bytes compression compressed buf0 buf1"
    and d1: "central_dir s1 = central_dir s
                @ central_directory_record h (of_nat (length (contents (fs s)))) name"
    unfolding s1_def by auto
  have w1: "writable (fs s1)"
    unfolding s1_def by (rule add_success_grows(1) [OF assms(3) w])
  from add_entries_grows [OF assms(4) [folded s1_def] w1]
  obtain a b where c2: "contents (fs s') = contents (fs s1) @ a"
    and d2: "central_dir s' = central_dir s1 @ b"
    by auto
  have f1: "field (length (contents (fs s))) 4 (contents (fs s'))
              = write4 ZIP_LOCAL_FILE_HEADER_SIG"
    by (simp add: c2 c1 field_def)
  have f2: "field (length (central_dir s)) 4 (central_dir s')
              = write4 ZIP_CENTRAL_DIRECTORY_FILE_HEADER_SIG"
    using central_directory_record_fields(1) [of h "of_nat (length (contents (fs s)))" name b]
    by (simp add: d2 d1 field_def)
  have f3: "field (length (central_dir s) + 42) 4 (central_dir s')
              = write4 (of_nat (length (contents (fs s))))"
    using central_directory_record_fields(2) [of h "of_nat (length (contents (fs s)))" name b]
    by (simp add: d2 d1 field_def)
  have f4: "field (length (central_dir s) + 46) (length name) (central_dir s') = name"
    using central_directory_record_fields(3) [of name h "of_nat (length (contents (fs s)))" b]
    by (simp add: d2 d1 field_def)
  show ?thesis
    unfolding Let_def f1 f2 f3 f4 by (simp add: unat_word32_of_nat)
qed

text \<open>
  C3, as amended. The field is 32-bit. For an entry added successfully after any
  sequence of successful additions to a new archive, and whatever is added after it:
  the signature of the entry's local header is in the file at the position the stream
  had when the call began, the entry's central-directory record is in the accumulator
  where the accumulator ended when the call began, it carries the entry's name, and its
  relative-offset field is that position modulo \<open>2 ^ 32\<close>: the position itself when
  that is below \<open>2 ^ 32\<close>.
\<close>

theorem central_record_points_to_local_header:
  assumes "NpzFile_new True fname = Inr s0"
    and "add_entries z s0 earlier = Inr s"
    and "fst (add_file_from_buffers z now s name buf0 buf1 timestamp compression) = Inr n"
    and "add_entries z (snd (add_file_from_buffers z now s name buf0 buf1 timestamp
                               compression)) later = Inr s'"
  shows "let p = length (contents (fs s));
             c = length (central_dir s);
             offset_field = unat (read4 (field (c + 42) 4 (central_dir s')))
         in field p 4 (contents (fs s')) = write4 ZIP_LOCAL_FILE_HEADER_SIG
            \<and> field c 4 (central_dir s') = write4 ZIP_CENTRAL_DIRECTORY_FILE_HEADER_SIG
            \<and> field (c + 46) (length name) (central_dir s') = name
            \<and> offset_field = p mod 4294967296
            \<and> (p < 4294967296 \<longrightarrow> offset_field = p)"
  by (rule entry_offset_fields [OF assms])

lemma big_archive_2_facts:
  shows "fst (add_file_from_buffers copy_zlib 1 big_archive ''y'' [] None 1700000000 STORED)
           = Inr 0"
    and "writable (fs big_archive_2)"
proof -
  have l: "length ''y'' \<le> 65535" by simp
  have g: "gmtime (if (1700000000::int) = 0 then 1 else 1700000000)
     = Some \<lparr>tm_sec = 20, tm_min = 13, tm_hour = 22, tm_mday = 14, tm_mon = 10,
              tm_year = 123\<rparr>"
    using gmtime_2023 by simp
  note e = add_stored_effect [OF l g big_archive_facts(2), of copy_zlib "[]",
      folded big_archive_2_def]
  show "fst (add_file_from_buffers copy_zlib 1 big_archive ''y'' [] None 1700000000 STORED)
           = Inr 0"
    using e(1) by simp
  show "writable (fs big_archive_2)" by (rule e(2))
qed

text \<open>
  C3 as stated fails once the file has reached \<open>2 ^ 32\<close> bytes: the local header of
  the entry added to \<open>big_archive\<close> begins at position 4294967327, and the offset field
  of its central-directory record is 31.
\<close>

theorem record_offset_wraps_counterexample:
  "NpzFile_new True ''ziptest.zip'' = Inr ziptest
   \<and> add_entries copy_zlib ziptest
         [(1, ''x'', replicate 4294967296 (CHR 0x00), None, 1700000000, STORED)]
       = Inr big_archive
   \<and> length (contents (fs big_archive)) = 4294967327
   \<and> length (central_dir big_archive) = 47
   \<and> fst (add_file_from_buffers copy_zlib 1 big_archive ''y'' [] None 1700000000 STORED)
       = Inr 0
   \<and> add_entries copy_zlib big_archive_2 [] = Inr big_archive_2
   \<and> field 4294967327 4 (contents (fs big_archive_2)) = write4 ZIP_LOCAL_FILE_HEADER_SIG
   \<and> field 47 4 (central_dir big_archive_2) = write4 ZIP_CENTRAL_DIRECTORY_FILE_HEADER_SIG
   \<and> unat (read4 (field (47 + 42) 4 (central_dir big_archive_2))) = 31"
proof -
  have a: "add_entries copy_zlib ziptest
         [(1, ''x'', replicate 4294967296 (CHR 0x00), None, 1700000000, STORED)]
       = Inr big_archive"
    unfolding big_archive_def by (rule add_entries_single [OF big_archive_facts(1)])
  have b: "add_entries copy_zlib big_archive_2 [] = Inr big_archive_2" by simp
  show ?thesis
    using entry_offset_fields [OF NpzFile_new_ziptest a big_archive_2_facts(1) b [unfolded big_archive_2_def]]
      NpzFile_new_ziptest a big_archive_2_facts(1) b
    unfolding Let_def big_archive_facts(3,4) big_archive_2_def [symmetric] by simp
qed


theorem central_record_points_to_local_header_witness:
  "NpzFile_new True ''ziptest.zip'' = Inr ziptest
   \<and> add_entries copy_zlib ziptest [] = Inr ziptest
   \<and> fst (add_file_from_buffers copy_zlib 1 ziptest ''bubble.txt''
            (''Words are loud'' @ [CHR 0x0A]) None 1700000000 STORED) = Inr 15
   \<and> add_entries copy_zlib bubble_archive [] = Inr bubble_archive
   \<and> length (contents (fs ziptest)) = 0 \<and> (0::nat) < 4294967296
   \<and> field 0 4 (contents (fs bubble_archive)) = write4 ZIP_LOCAL_FILE_HEADER_SIG
   \<and> field 0 4 (central_dir bubble_archive) = write4 ZIP_CENTRAL_DIRECTORY_FILE_HEADER_SIG
   \<and> unat (read4 (field (0 + 42) 4 (central_dir bubble_archive))) = 0"
proof -
  have a: "add_entries copy_zlib ziptest [] = Inr ziptest" by simp
  have b: "add_entries copy_zlib bubble_archive [] = Inr bubble_archive" by simp
  show ?thesis
    using central_record_points_to_local_header
            [OF NpzFile_new_ziptest a bubble_archive_facts(1) b [unfolded bubble_archive_def]]
      NpzFile_new_ziptest a bubble_archive_facts(1) b
    unfolding Let_def ziptest_lengths bubble_archive_def [symmetric] by simp
qed

lemma append_dims_eq:
  "append_dims header ds = header @ concat (map (\<lambda>d. '','' @ to_string (unat d)) ds)"
  by (induction ds arbitrary: header) simp_all

lemma join_commas_Cons:
  "join_commas (x # xs) = x @ concat (map (\<lambda>y. '','' @ y) xs)"
  by (induction xs arbitrary: x) simp_all

lemma code_shape_text:
  assumes "shape \<noteq> []"
  shows "to_string (unat (hd shape))
         @ concat (map (\<lambda>d. '','' @ to_string (unat d)) (tl shape))
         @ (if length shape = 1 then '','' else [])
         = shape_text_spec shape"
proof (cases shape)
  case Nil
  then show ?thesis using assms by simp
next
  case (Cons d ds)
  show ?thesis
  proof (cases ds)
    case Nil
    then show ?thesis by (simp add: Cons shape_text_spec_def)
  next
    case (Cons e es)
    then show ?thesis
      by (simp add: \<open>shape = d # ds\<close> shape_text_spec_def join_commas_Cons map_concat comp_def
          del: join_commas.simps)
  qed
qed

lemma pad_aligns:
  fixes h :: nat
  shows "(h + (64 - (h + 1) mod 64) + 1) mod 64 = 0"
proof -
  define q where "q = (h + 1) div 64"
  define r where "r = (h + 1) mod 64"
  have e: "h + 1 = 64 * q + r" unfolding q_def r_def by simp
  have l: "r < 64" unfolding r_def by simp
  have "h + (64 - r) + 1 = 64 * (q + 1)" using e l by simp
  then show ?thesis unfolding r_def by simp
qed


lemma length_NpyHeader_bytes [simp]:
  "length (NpyHeader_bytes (NpyHeader_init\<lparr>header_len := v\<rparr>)) = 10"
  by (simp add: NpyHeader_bytes_def NpyHeader_init_def)

lemma code_text_eq:
  assumes "shape \<noteq> []"
  shows "(let header = pre;
          header = header @ ''{'descr': '' @ [CHR 0x27];
          header = header @ type_descr;
          header = header @ ''', 'fortran_order': False, 'shape': ('';
          header = header @ to_string (unat (hd shape));
          header = append_dims header (tl shape);
          header = (if length shape = 1 then header @ '','' else header);
          header = header @ '')}''
      in header) = pre @ header_dict_spec type_descr shape"
proof -
  have "(let header = pre;
          header = header @ ''{'descr': '' @ [CHR 0x27];
          header = header @ type_descr;
          header = header @ ''', 'fortran_order': False, 'shape': ('';
          header = header @ to_string (unat (hd shape));
          header = append_dims header (tl shape);
          header = (if length shape = 1 then header @ '','' else header);
          header = header @ '')}''
      in header) = pre @ ''{'descr': '' @ [CHR 0x27] @ type_descr
             @ ''', 'fortran_order': False, 'shape': (''
             @ (to_string (unat (hd shape))
                @ concat (map (\<lambda>d. '','' @ to_string (unat d)) (tl shape))
                @ (if length shape = 1 then '','' else [])) @ '')}''"
    unfolding Let_def append_dims_eq by simp
  then show ?thesis
    unfolding code_shape_text [OF assms(1)] header_dict_spec_def by simp
qed




lemma create_npy_header_structure:
  assumes "shape \<noteq> []"
  shows "create_npy_header type_descr shape =
     (\<lambda>npy_header header. 
      let pad_count = NPY_ARRAY_ALIGN - (length header + 1) mod NPY_ARRAY_ALIGN;
          header = header @ replicate pad_count (CHR '' '');
          header = header @ [CHR 0x0A]
      in if \<not> length header \<le> 0xffff then Inl assertion_failed
           else
             let header =
                   (if length header > NPY_ARRAY_ALIGN then
                      let npy_header = npy_header\<lparr>header_len := of_nat (length header - 10)\<rparr>
                      in take 8 header @ write2 (header_len npy_header) @ drop 10 header
                    else header)
             in if length header mod NPY_ARRAY_ALIGN \<noteq> 0 then Inl assertion_failed
                else Inr header)
     (NpyHeader_init\<lparr>header_len := of_nat (NPY_ARRAY_ALIGN - 10)\<rparr>)
     (let header = NpyHeader_bytes (NpyHeader_init\<lparr>header_len := of_nat (NPY_ARRAY_ALIGN - 10)\<rparr>);
          header = header @ ''{'descr': '' @ [CHR 0x27];
          header = header @ type_descr;
          header = header @ ''', 'fortran_order': False, 'shape': ('';
          header = header @ to_string (unat (hd shape));
          header = append_dims header (tl shape);
          header = (if length shape = 1 then header @ '','' else header);
          header = header @ '')}''
      in header)"
proof -
  have n: "(\<not> length shape > 0) = False" using assms by simp
  show ?thesis
    unfolding create_npy_header_def Let_def n
    by (simp only: if_False)
qed


lemma create_npy_header_unfold:
  assumes "shape \<noteq> []"
  shows "create_npy_header type_descr shape =
           (let H = npy_unpatched type_descr shape
            in if \<not> length H \<le> 65535 then Inl assertion_failed
               else Inr (if length H > 64
                         then take 8 H @ write2 (of_nat (length H - 10)) @ drop 10 H
                         else H))"
proof -
  define H where "H = npy_unpatched type_descr shape"
  define pre where "pre = NpyHeader_bytes (NpyHeader_init\<lparr>header_len := of_nat (NPY_ARRAY_ALIGN - 10)\<rparr>)"
  have p54: "pre = NpyHeader_bytes (NpyHeader_init\<lparr>header_len := 54\<rparr>)"
    unfolding pre_def NPY_ARRAY_ALIGN_def by simp
  have hl: "header_len (X\<lparr>header_len := v\<rparr>) = v" for X :: NpyHeader and v
    by simp
  have HH: "(pre @ header_dict_spec type_descr shape)
             @ replicate (64 - (length (pre @ header_dict_spec type_descr shape) + 1) mod 64)
                 (CHR '' '') @ [CHR 0x0A] = H"
    unfolding H_def npy_unpatched_def Let_def p54 by simp
  have m: "length H mod 64 = 0"
    using pad_aligns [of "10 + length (header_dict_spec type_descr shape)"]
    unfolding H_def npy_unpatched_def Let_def by simp
  have l8: "10 < length H" unfolding H_def npy_unpatched_def Let_def by simp
  have lpatch: "length (take 8 H @ write2 (of_nat (length H - 10)) @ drop 10 H) = length H"
    using l8 by simp
  have mp: "length (take 8 H @ write2 (of_nat (length H - 10)) @ drop 10 H) mod 64 = 0"
    unfolding lpatch by (rule m)
  have "create_npy_header type_descr shape =
     (let header = pre @ header_dict_spec type_descr shape;
          pad_count = 64 - (length header + 1) mod 64;
          header = header @ replicate pad_count (CHR '' '');
          header = header @ [CHR 0x0A]
      in if \<not> length header \<le> 65535 then Inl assertion_failed
           else
             let header =
                   (if length header > 64 then
                      take 8 header @ write2 (of_nat (length header - 10)) @ drop 10 header
                    else header)
             in if length header mod 64 \<noteq> 0 then Inl assertion_failed
                else Inr header)"
    unfolding create_npy_header_structure [OF assms] pre_def [symmetric]
      code_text_eq [OF assms]
    by (simp only: NPY_ARRAY_ALIGN_def Let_def hl)
  also have "\<dots> = (if \<not> length H \<le> 65535 then Inl assertion_failed
           else
             let header =
                   (if length H > 64 then
                      take 8 H @ write2 (of_nat (length H - 10)) @ drop 10 H
                    else H)
             in if length header mod 64 \<noteq> 0 then Inl assertion_failed
                else Inr header)"
    unfolding Let_def using HH by (simp only: append_assoc)
  also have "\<dots> = (if \<not> length H \<le> 65535 then Inl assertion_failed
               else Inr (if length H > 64
                         then take 8 H @ write2 (of_nat (length H - 10)) @ drop 10 H
                         else H))"
    unfolding Let_def
    by (cases "64 < length H") (simp_all only: if_True if_False m mp, simp_all)
  finally show ?thesis unfolding H_def Let_def .
qed


lemma npy_unpatched_shape:
  shows "\<exists>pad. 1 \<le> pad \<and> pad \<le> 64
           \<and> drop 10 (npy_unpatched type_descr shape)
               = header_dict_spec type_descr shape @ replicate pad (CHR '' '') @ [CHR 0x0A]
           \<and> length (npy_unpatched type_descr shape)
               = 10 + length (header_dict_spec type_descr shape) + pad + 1"
proof -
  define pad where "pad = 64 - (10 + length (header_dict_spec type_descr shape) + 1) mod 64"
  have r: "(10 + length (header_dict_spec type_descr shape) + 1) mod 64 < 64" by simp
  have p: "1 \<le> pad" "pad \<le> 64" unfolding pad_def using r by simp_all
  have "npy_unpatched type_descr shape
          = NpyHeader_bytes (NpyHeader_init\<lparr>header_len := 54\<rparr>)
            @ header_dict_spec type_descr shape @ replicate pad (CHR '' '') @ [CHR 0x0A]"
    unfolding npy_unpatched_def Let_def pad_def by simp
  then have "drop 10 (npy_unpatched type_descr shape)
               = header_dict_spec type_descr shape @ replicate pad (CHR '' '') @ [CHR 0x0A]"
    and "length (npy_unpatched type_descr shape)
               = 10 + length (header_dict_spec type_descr shape) + pad + 1"
    by simp_all
  then show ?thesis using p by blast
qed

text \<open>
  C8. For a shape with at least one dimension and any type descriptor, in particular
  each of the thirteen descriptors of \<open>numpy_descr\<close>: the header that
  \<^verbatim>\<open>create_npy_header\<close> builds has a length that is a multiple of 64, its last byte is
  a newline, and after the 10 bytes of preamble it consists of the dictionary, in which a
  shape of one dimension reads \<open>(d0,)\<close> and a longer one its values joined by commas,
  then between 1 and 64 spaces, then the newline (so the byte before the newline is a
  space). The header is built unless the assertion on its length fails, which takes a
  dictionary of more than 65460 bytes.
\<close>

theorem npy_header_layout:
  assumes "shape \<noteq> []"
  shows "case create_npy_header type_descr shape of
           Inr header \<Rightarrow>
             length header mod 64 = 0
             \<and> last header = CHR 0x0A
             \<and> (\<exists>pad. 1 \<le> pad \<and> pad \<le> 64
                    \<and> drop 10 header
                        = header_dict_spec type_descr shape @ replicate pad (CHR '' '')
                          @ [CHR 0x0A])
         | Inl e \<Rightarrow>
             e = assertion_failed \<and> 65460 < length (header_dict_spec type_descr shape)"
proof -
  define H where "H = npy_unpatched type_descr shape"
  obtain pad where p: "1 \<le> pad" "pad \<le> 64"
    and d: "drop 10 H = header_dict_spec type_descr shape @ replicate pad (CHR '' '')
                         @ [CHR 0x0A]"
    and l: "length H = 10 + length (header_dict_spec type_descr shape) + pad + 1"
    unfolding H_def using npy_unpatched_shape [of type_descr shape] by blast
  note u = create_npy_header_unfold [OF assms, of type_descr, unfolded Let_def,
      folded H_def]
  show ?thesis
  proof (cases "length H \<le> 65535")
    case False
    have "65460 < length (header_dict_spec type_descr shape)"
      using False l p by simp
    then show ?thesis unfolding u using False by simp
  next
    case True
    define P where "P = (if length H > 64
                         then take 8 H @ write2 (of_nat (length H - 10)) @ drop 10 H
                         else H)"
    have r: "create_npy_header type_descr shape = Inr P"
      unfolding u P_def using True by simp
    have l10: "10 < length H" using l by simp
    have lpatch: "length (take 8 H @ write2 (of_nat (length H - 10)) @ drop 10 H) = length H"
      using l10 by simp
    have dpatch: "drop 10 (take 8 H @ write2 (of_nat (length H - 10)) @ drop 10 H) = drop 10 H"
      using l10 by simp
    have dP: "drop 10 P = drop 10 H"
      unfolding P_def by (cases "64 < length H") (simp_all only: if_True if_False dpatch)
    have lP: "length P = length H"
      unfolding P_def by (cases "64 < length H") (simp_all only: if_True if_False lpatch)
    have m: "length H mod 64 = 0"
      using pad_aligns [of "10 + length (header_dict_spec type_descr shape)"]
      unfolding H_def npy_unpatched_def Let_def by simp
    have "P = take 10 P @ drop 10 P" by simp
    then have "P = (take 10 P @ header_dict_spec type_descr shape @ replicate pad (CHR '' ''))
                   @ [CHR 0x0A]"
      unfolding dP d by simp
    then have la: "last P = CHR 0x0A"
      by (metis last_snoc)
    show ?thesis
      unfolding r using la lP m dP d p by auto
  qed
qed


lemma to_string_examples: "to_string 3 = ''3''" "to_string 2 = ''2''"
  by code_simp+

lemma header_dict_spec_example:
  "header_dict_spec ''<f4'' [3, 2]
     = ''{'descr': '<f4', 'fortran_order': False, 'shape': (3,2)}''"
  by (simp add: header_dict_spec_def shape_text_spec_def to_string_examples)

theorem npy_header_layout_witness:
  "[3, 2 :: 64 word] \<noteq> []
   \<and> (\<exists>header pad.
         create_npy_header ''<f4'' [3, 2] = Inr header
         \<and> length header mod 64 = 0 \<and> last header = CHR 0x0A
         \<and> 1 \<le> pad \<and> pad \<le> 64
         \<and> drop 10 header
             = ''{'descr': '<f4', 'fortran_order': False, 'shape': (3,2)}''
               @ replicate pad (CHR '' '') @ [CHR 0x0A])"
proof -
  have n: "[3, 2 :: 64 word] \<noteq> []" by simp
  have s: "\<not> 65460 < length (header_dict_spec ''<f4'' [3, 2])"
    unfolding header_dict_spec_example by simp
  show ?thesis
  proof (cases "create_npy_header ''<f4'' [3, 2]")
    case (Inl e)
    then show ?thesis using npy_header_layout [OF n, of "''<f4''"] s by simp
  next
    case (Inr header)
    then show ?thesis
      using npy_header_layout [OF n, of "''<f4''"] unfolding header_dict_spec_example by auto
  qed
qed

lemma compress_chunk_success:
  assumes "compress_chunk z strm source dest_len finish = Inr strm'"
  shows "\<exists>ret. deflate z (feed strm source dest_len)
                 (if finish then Z_FINISH else Z_NO_FLUSH) = (ret, strm')
               \<and> (if finish then ret = Z_STREAM_END else ret = Z_OK \<or> ret = Z_BUF_ERROR)"
  using assms
  by (auto simp: compress_chunk_def feed_def Let_def split: prod.splits if_splits)

lemma unat_ucast_32_64: "unat (ucast (w :: 32 word) :: 64 word) = unat w"
proof -
  have "unat (ucast w :: 64 word) = take_bit 64 (unat w)"
    by (simp only: unsigned_ucast_eq len_bit0 len_num1, simp)
  also have "\<dots> = unat w"
    by (rule take_bit_nat_eq_self) (use unsigned_less [of w, where 'a = nat] in simp)
  finally show ?thesis .
qed

lemma deflate_buffers_session:
  assumes "deflate_buffers z buf0 buf1 total_size = Inr (compressed, cs)"
  shows "\<exists>st room0. deflateInit2 z = (Z_OK, st) \<and>
     (case buf1 of
        None \<Rightarrow>
          (\<exists>strm. deflate z (feed (fresh_stream st) buf0 room0) Z_FINISH = (Z_STREAM_END, strm)
                  \<and> avail_in strm = 0 \<and> unat (total_in strm) = unat total_size)
      | Some b1 \<Rightarrow>
          (\<exists>ret strm1 room1 strm2.
              deflate z (feed (fresh_stream st) buf0 room0) Z_NO_FLUSH = (ret, strm1)
              \<and> (ret = Z_OK \<or> ret = Z_BUF_ERROR) \<and> avail_in strm1 = 0
              \<and> deflate z (feed strm1 b1 room1) Z_FINISH = (Z_STREAM_END, strm2)
              \<and> unat (total_in strm2) = unat total_size))"
proof -
  obtain iret st where i: "deflateInit2 z = (iret, st)" by (cases "deflateInit2 z")
  have ok: "iret = Z_OK"
    using assms by (auto simp: deflate_buffers_def i Let_def split: if_splits)
  define room0 where "room0 = length (resize (unat (compressBound z (ucast total_size))) [])"
  obtain strm1 where c1: "compress_chunk z (fresh_stream st) buf0 room0 (buf1 = None) = Inr strm1"
    using assms
    by (cases "compress_chunk z (fresh_stream st) buf0 room0 (buf1 = None)")
       (auto simp: deflate_buffers_def i ok Let_def fresh_stream_def room0_def)
  have a1: "avail_in strm1 = 0"
    using assms c1
    by (auto simp: deflate_buffers_def i ok Let_def fresh_stream_def room0_def
        split: if_splits)
  show ?thesis
  proof (cases buf1)
    case None
    have t: "total_in strm1 = ucast total_size"
      using assms c1 a1
      by (auto simp: deflate_buffers_def i ok Let_def fresh_stream_def room0_def None
          split: if_splits)
    from compress_chunk_success [OF c1] None
    have d: "deflate z (feed (fresh_stream st) buf0 room0) Z_FINISH = (Z_STREAM_END, strm1)"
      by auto
    have tt: "unat (total_in strm1) = unat total_size"
      by (simp add: t unat_ucast_32_64)
    have "\<exists>strm. deflate z (feed (fresh_stream st) buf0 room0) Z_FINISH = (Z_STREAM_END, strm)
                  \<and> avail_in strm = 0 \<and> unat (total_in strm) = unat total_size"
      using d a1 tt by blast
    then show ?thesis
      unfolding None option.case using i [unfolded ok] by blast
  next
    case (Some b1)
    define compressed1 where "compressed1 =
      store_at (resize (unat (compressBound z (ucast total_size))) []) 0 (next_out strm1)"
    define room1 where "room1 = nat ((int (length compressed1) - int (unat (total_out strm1)))
                                      mod 2 ^ 64)"
    obtain strm2 where c2: "compress_chunk z strm1 b1 room1 True = Inr strm2"
      using assms c1 a1
      by (cases "compress_chunk z strm1 b1 room1 True")
         (auto simp: deflate_buffers_def i ok Let_def fresh_stream_def room0_def Some
            room1_def compressed1_def)
    have t: "total_in strm2 = ucast total_size"
      using assms c1 a1 c2
      by (auto simp: deflate_buffers_def i ok Let_def fresh_stream_def room0_def Some
            room1_def compressed1_def split: if_splits)
    from compress_chunk_success [OF c1] Some
    obtain ret where d1: "deflate z (feed (fresh_stream st) buf0 room0) Z_NO_FLUSH = (ret, strm1)"
      and r1: "ret = Z_OK \<or> ret = Z_BUF_ERROR"
      by auto
    from compress_chunk_success [OF c2]
    have d2: "deflate z (feed strm1 b1 room1) Z_FINISH = (Z_STREAM_END, strm2)"
      by auto
    have tt: "unat (total_in strm2) = unat total_size"
      by (simp add: t unat_ucast_32_64)
    have "\<exists>ret strm1 room1 strm2.
              deflate z (feed (fresh_stream st) buf0 room0) Z_NO_FLUSH = (ret, strm1)
              \<and> (ret = Z_OK \<or> ret = Z_BUF_ERROR) \<and> avail_in strm1 = 0
              \<and> deflate z (feed strm1 b1 room1) Z_FINISH = (Z_STREAM_END, strm2)
              \<and> unat (total_in strm2) = unat total_size"
      using d1 r1 a1 d2 tt by blast
    then show ?thesis
      unfolding Some option.case using i [unfolded ok] by blast
  qed
qed

lemma add_deflate_session:
  assumes "fst (add_file_from_buffers z now s name buf0 buf1 timestamp DEFLATE) = Inr n"
  shows "\<exists>compressed cs.
           deflate_buffers z buf0 buf1
             (of_nat (length buf0 + (case buf1 of None \<Rightarrow> 0 | Some b1 \<Rightarrow> length b1)))
           = Inr (compressed, cs)"
proof -
  have l: "length name \<le> 65535"
    using assms by (auto simp: add_file_from_buffers_def Let_def split: if_splits)
  obtain utctm where g: "gmtime (if timestamp = 0 then now else timestamp) = Some utctm"
    using assms l
    by (cases "gmtime (if timestamp = 0 then now else timestamp)")
       (auto simp: add_file_from_buffers_def Let_def)
  show ?thesis
    using assms l g
    by (cases "deflate_buffers z buf0 buf1 (of_nat (length buf0
                         + (case buf1 of None \<Rightarrow> 0 | Some b1 \<Rightarrow> length b1)))")
       (auto simp: add_file_from_buffers_def Let_def)
qed

text \<open>
  C9, as amended. When \<^verbatim>\<open>add_file_from_buffers\<close> succeeds with the deflate method,
  the encoder was initialised and then called as follows. With one fragment: once, on
  that fragment, with \<^verbatim>\<open>Z_FINISH\<close>, and it answered \<^verbatim>\<open>Z_STREAM_END\<close>. With two
  fragments: on the first with \<^verbatim>\<open>Z_NO_FLUSH\<close>, answering \<^verbatim>\<open>Z_OK\<close> or
  \<^verbatim>\<open>Z_BUF_ERROR\<close> and leaving no input unread, then on the second, from the stream the
  first call left, with \<^verbatim>\<open>Z_FINISH\<close>, answering \<^verbatim>\<open>Z_STREAM_END\<close>. Any other answer
  fails an assertion. At the end the encoder's \<open>total_in\<close> is the total length of the
  fragments modulo \<open>2 ^ 32\<close> (the assertion compares it with a 32-bit total): the
  total length itself when that is below \<open>2 ^ 32\<close>.
\<close>

theorem deflate_session_feeds_and_counts:
  assumes "fst (add_file_from_buffers z now s name buf0 buf1 timestamp DEFLATE) = Inr n"
  shows "\<exists>st room0. deflateInit2 z = (Z_OK, st) \<and>
     (case buf1 of
        None \<Rightarrow>
          (\<exists>strm. deflate z (feed (fresh_stream st) buf0 room0) Z_FINISH = (Z_STREAM_END, strm)
                  \<and> avail_in strm = 0
                  \<and> unat (total_in strm) = length buf0 mod 4294967296
                  \<and> (length buf0 < 4294967296 \<longrightarrow> unat (total_in strm) = length buf0))
      | Some b1 \<Rightarrow>
          (\<exists>ret strm1 room1 strm2.
              deflate z (feed (fresh_stream st) buf0 room0) Z_NO_FLUSH = (ret, strm1)
              \<and> (ret = Z_OK \<or> ret = Z_BUF_ERROR) \<and> avail_in strm1 = 0
              \<and> deflate z (feed strm1 b1 room1) Z_FINISH = (Z_STREAM_END, strm2)
              \<and> unat (total_in strm2) = (length buf0 + length b1) mod 4294967296
              \<and> (length buf0 + length b1 < 4294967296
                   \<longrightarrow> unat (total_in strm2) = length buf0 + length b1)))"
proof -
  define k where "k = length buf0 + (case buf1 of None \<Rightarrow> 0 | Some b1 \<Rightarrow> length b1)"
  from add_deflate_session [OF assms] obtain compressed cs where
    d: "deflate_buffers z buf0 buf1 (of_nat k) = Inr (compressed, cs)"
    unfolding k_def by blast
  have u: "unat (of_nat k :: 32 word) = k mod 4294967296"
    by (rule unat_word32_of_nat)
  have v: "k < 4294967296 \<Longrightarrow> k mod 4294967296 = k" by simp
  from deflate_buffers_session [OF d, unfolded u]
  obtain st room0 where i: "deflateInit2 z = (Z_OK, st)"
    and c: "case buf1 of
        None \<Rightarrow>
          (\<exists>strm. deflate z (feed (fresh_stream st) buf0 room0) Z_FINISH = (Z_STREAM_END, strm)
                  \<and> avail_in strm = 0 \<and> unat (total_in strm) = k mod 4294967296)
      | Some b1 \<Rightarrow>
          (\<exists>ret strm1 room1 strm2.
              deflate z (feed (fresh_stream st) buf0 room0) Z_NO_FLUSH = (ret, strm1)
              \<and> (ret = Z_OK \<or> ret = Z_BUF_ERROR) \<and> avail_in strm1 = 0
              \<and> deflate z (feed strm1 b1 room1) Z_FINISH = (Z_STREAM_END, strm2)
              \<and> unat (total_in strm2) = k mod 4294967296)"
    by blast
  show ?thesis
  proof (cases buf1)
    case None
    then have k: "k = length buf0" by (simp add: k_def)
    from c obtain strm where
      f: "deflate z (feed (fresh_stream st) buf0 room0) Z_FINISH = (Z_STREAM_END, strm)"
        "avail_in strm = 0" "unat (total_in strm) = length buf0 mod 4294967296"
      unfolding None option.case k by blast
    have "length buf0 < 4294967296 \<longrightarrow> unat (total_in strm) = length buf0"
      using f(3) by simp
    with f have "\<exists>strm. deflate z (feed (fresh_stream st) buf0 room0) Z_FINISH
                    = (Z_STREAM_END, strm)
                  \<and> avail_in strm = 0
                  \<and> unat (total_in strm) = length buf0 mod 4294967296
                  \<and> (length buf0 < 4294967296 \<longrightarrow> unat (total_in strm) = length buf0)"
      by blast
    then show ?thesis unfolding None option.case using i by blast
  next
    case (Some b1)
    then have k: "k = length buf0 + length b1" by (simp add: k_def)
    from c obtain ret strm1 room1 strm2 where
      f: "deflate z (feed (fresh_stream st) buf0 room0) Z_NO_FLUSH = (ret, strm1)"
        "ret = Z_OK \<or> ret = Z_BUF_ERROR" "avail_in strm1 = 0"
        "deflate z (feed strm1 b1 room1) Z_FINISH = (Z_STREAM_END, strm2)"
        "unat (total_in strm2) = (length buf0 + length b1) mod 4294967296"
      unfolding Some option.case k by blast
    have "length buf0 + length b1 < 4294967296
            \<longrightarrow> unat (total_in strm2) = length buf0 + length b1"
      using f(5) by simp
    with f have "\<exists>ret strm1 room1 strm2.
              deflate z (feed (fresh_stream st) buf0 room0) Z_NO_FLUSH = (ret, strm1)
              \<and> (ret = Z_OK \<or> ret = Z_BUF_ERROR) \<and> avail_in strm1 = 0
              \<and> deflate z (feed strm1 b1 room1) Z_FINISH = (Z_STREAM_END, strm2)
              \<and> unat (total_in strm2) = (length buf0 + length b1) mod 4294967296
              \<and> (length buf0 + length b1 < 4294967296
                   \<longrightarrow> unat (total_in strm2) = length buf0 + length b1)"
      by blast
    then show ?thesis unfolding Some option.case using i by blast
  qed
qed

lemma copy_zlib_two_fragments:
  "\<exists>c. deflate_buffers copy_zlib ''x'' (Some ''yz'') 3 = Inr (c, 3)"
  by (simp add: deflate_buffers_def compress_chunk_def copy_zlib_def Let_def resize_def
      store_at_def Z_OK_def Z_STREAM_END_def Z_BUF_ERROR_def Z_NO_FLUSH_def Z_FINISH_def)

lemma copy_zlib_one_fragment:
  "\<exists>c. deflate_buffers copy_zlib ''xyz'' None 3 = Inr (c, 3)"
  by (simp add: deflate_buffers_def compress_chunk_def copy_zlib_def Let_def resize_def
      store_at_def Z_OK_def Z_STREAM_END_def Z_BUF_ERROR_def Z_NO_FLUSH_def Z_FINISH_def)

lemma copy_zlib_big_fragment:
  "\<exists>c. deflate_buffers copy_zlib (replicate 4294967296 (CHR 0x00)) None 0 = Inr (c, 0)"
  by (simp add: deflate_buffers_def compress_chunk_def copy_zlib_def Let_def resize_def
      store_at_def Z_OK_def Z_STREAM_END_def Z_BUF_ERROR_def Z_NO_FLUSH_def Z_FINISH_def)

lemma copy_zlib_big_call:
  "fst (deflate copy_zlib (feed (fresh_stream ()) (replicate 4294967296 (CHR 0x00)) 13)
          Z_FINISH) = Z_STREAM_END"
  "total_in (snd (deflate copy_zlib
       (feed (fresh_stream ()) (replicate 4294967296 (CHR 0x00)) 13) Z_FINISH)) = 0"
  by (simp_all add: copy_zlib_def feed_def fresh_stream_def Let_def Z_OK_def Z_STREAM_END_def
      Z_FINISH_def)

lemma add_deflate_result:
  assumes "length name \<le> 65535"
    and "gmtime (if timestamp = 0 then now else timestamp) = Some utctm"
    and "deflate_buffers z buf0 buf1
           (of_nat (length buf0 + (case buf1 of None \<Rightarrow> 0 | Some b1 \<Rightarrow> length b1)))
         = Inr (c, cs)"
  shows "fst (add_file_from_buffers z now s name buf0 buf1 timestamp DEFLATE)
         = Inr (cs mod 4294967296)"
  using assms
  by (simp add: add_file_from_buffers_def Let_def unat_word32_of_nat)


lemma deflate_examples:
  shows "fst (add_file_from_buffers copy_zlib 1 ziptest ''a'' ''xyz'' None 1700000000 DEFLATE)
           = Inr 3"
    and "fst (add_file_from_buffers copy_zlib 1 ziptest ''a'' ''x'' (Some ''yz'') 1700000000
                DEFLATE) = Inr 3"
    and "fst (add_file_from_buffers copy_zlib 1 ziptest ''x''
                (replicate 4294967296 (CHR 0x00)) None 1700000000 DEFLATE) = Inr 0"
proof -
  have l: "length ''a'' \<le> 65535" "length ''x'' \<le> 65535" by simp_all
  have g: "gmtime (if (1700000000::int) = 0 then 1 else 1700000000)
     = Some \<lparr>tm_sec = 20, tm_min = 13, tm_hour = 22, tm_mday = 14, tm_mon = 10,
              tm_year = 123\<rparr>"
    using gmtime_2023 by simp
  obtain c1 where "deflate_buffers copy_zlib ''xyz'' None 3 = Inr (c1, 3)"
    using copy_zlib_one_fragment by blast
  then have "deflate_buffers copy_zlib ''xyz'' None
       (of_nat (length ''xyz'' + (case None :: bytes option of None \<Rightarrow> 0 | Some b1 \<Rightarrow> length b1)))
     = Inr (c1, 3)"
    by simp
  from add_deflate_result [OF l(1) g this]
  show "fst (add_file_from_buffers copy_zlib 1 ziptest ''a'' ''xyz'' None 1700000000 DEFLATE)
           = Inr 3"
    by simp
  obtain c2 where "deflate_buffers copy_zlib ''x'' (Some ''yz'') 3 = Inr (c2, 3)"
    using copy_zlib_two_fragments by blast
  then have "deflate_buffers copy_zlib ''x'' (Some ''yz'')
       (of_nat (length ''x'' + (case Some ''yz'' of None \<Rightarrow> 0 | Some b1 \<Rightarrow> length b1)))
     = Inr (c2, 3)"
    by simp
  from add_deflate_result [OF l(1) g this]
  show "fst (add_file_from_buffers copy_zlib 1 ziptest ''a'' ''x'' (Some ''yz'') 1700000000
                DEFLATE) = Inr 3"
    by simp
  obtain c3 where "deflate_buffers copy_zlib (replicate 4294967296 (CHR 0x00)) None 0
                     = Inr (c3, 0)"
    using copy_zlib_big_fragment by blast
  moreover have "(of_nat (length (replicate 4294967296 (CHR 0x00))
          + (case None :: bytes option of None \<Rightarrow> 0 | Some b1 \<Rightarrow> length b1)) :: 32 word) = 0"
    by simp
  ultimately have "deflate_buffers copy_zlib (replicate 4294967296 (CHR 0x00)) None
       (of_nat (length (replicate 4294967296 (CHR 0x00))
          + (case None :: bytes option of None \<Rightarrow> 0 | Some b1 \<Rightarrow> length b1)))
     = Inr (c3, 0)"
    by (simp only:)
  from add_deflate_result [OF l(2) g this]
  show "fst (add_file_from_buffers copy_zlib 1 ziptest ''x''
                (replicate 4294967296 (CHR 0x00)) None 1700000000 DEFLATE) = Inr 0"
    by simp
qed

text \<open>
  C9 as stated fails for a fragment of \<open>2 ^ 32\<close> bytes. The 32-bit \<open>avail_in\<close> and
  the 32-bit total are both 0, the encoder is asked to finish with no input, ends the
  stream, and both assertions pass: the call succeeds with a consumed count of 0 for
  4294967296 bytes of input.
\<close>

theorem consumed_count_wraps_counterexample:
  "length (replicate 4294967296 (CHR 0x00)) = 4294967296
   \<and> fst (add_file_from_buffers copy_zlib 1 ziptest ''x''
                (replicate 4294967296 (CHR 0x00)) None 1700000000 DEFLATE) = Inr 0
   \<and> deflateInit2 copy_zlib = (Z_OK, ())
   \<and> fst (deflate copy_zlib (feed (fresh_stream ()) (replicate 4294967296 (CHR 0x00)) 13)
          Z_FINISH) = Z_STREAM_END
   \<and> unat (total_in (snd (deflate copy_zlib
          (feed (fresh_stream ()) (replicate 4294967296 (CHR 0x00)) 13) Z_FINISH))) = 0
   \<and> unat (total_in (snd (deflate copy_zlib
          (feed (fresh_stream ()) (replicate 4294967296 (CHR 0x00)) 13) Z_FINISH)))
       \<noteq> length (replicate 4294967296 (CHR 0x00))"
  using deflate_examples(3) copy_zlib_big_call
  by (simp add: copy_zlib_def)

theorem deflate_session_feeds_and_counts_witness:
  "fst (add_file_from_buffers copy_zlib 1 ziptest ''a'' ''xyz'' None 1700000000 DEFLATE) = Inr 3
   \<and> length ''xyz'' < 4294967296
   \<and> (\<exists>st room0 strm.
         deflateInit2 copy_zlib = (Z_OK, st)
         \<and> deflate copy_zlib (feed (fresh_stream st) ''xyz'' room0) Z_FINISH
             = (Z_STREAM_END, strm)
         \<and> avail_in strm = 0 \<and> unat (total_in strm) = length ''xyz'')
   \<and> fst (add_file_from_buffers copy_zlib 1 ziptest ''a'' ''x'' (Some ''yz'') 1700000000
                DEFLATE) = Inr 3
   \<and> length ''x'' + length ''yz'' < 4294967296
   \<and> (\<exists>st room0 ret strm1 room1 strm2.
         deflateInit2 copy_zlib = (Z_OK, st)
         \<and> deflate copy_zlib (feed (fresh_stream st) ''x'' room0) Z_NO_FLUSH = (ret, strm1)
         \<and> (ret = Z_OK \<or> ret = Z_BUF_ERROR) \<and> avail_in strm1 = 0
         \<and> deflate copy_zlib (feed strm1 ''yz'' room1) Z_FINISH = (Z_STREAM_END, strm2)
         \<and> unat (total_in strm2) = length ''x'' + length ''yz'')"
proof -
  have l1: "length ''xyz'' < 4294967296" and l2: "length ''x'' + length ''yz'' < 4294967296"
    by simp_all
  from deflate_session_feeds_and_counts [OF deflate_examples(1)] l1
  have a: "\<exists>st room0 strm.
         deflateInit2 copy_zlib = (Z_OK, st)
         \<and> deflate copy_zlib (feed (fresh_stream st) ''xyz'' room0) Z_FINISH
             = (Z_STREAM_END, strm)
         \<and> avail_in strm = 0 \<and> unat (total_in strm) = length ''xyz''"
    unfolding option.case by blast
  from deflate_session_feeds_and_counts [OF deflate_examples(2)] l2
  have b: "\<exists>st room0 ret strm1 room1 strm2.
         deflateInit2 copy_zlib = (Z_OK, st)
         \<and> deflate copy_zlib (feed (fresh_stream st) ''x'' room0) Z_NO_FLUSH = (ret, strm1)
         \<and> (ret = Z_OK \<or> ret = Z_BUF_ERROR) \<and> avail_in strm1 = 0
         \<and> deflate copy_zlib (feed strm1 ''yz'' room1) Z_FINISH = (Z_STREAM_END, strm2)
         \<and> unat (total_in strm2) = length ''x'' + length ''yz''"
    unfolding option.case by blast
  show ?thesis
    using deflate_examples(1,2) l1 l2 a b by blast
qed

lemma central_dir_names_Nil: "central_dir_names [] = Some []"
  by (simp add: central_dir_names.simps)















text \<open>
  What a rejected name does to the count: \<^verbatim>\<open>num_entries_++\<close> comes before the check of
  the name's length, so the call that throws \<open>Filename too long\<close> on a new archive
  leaves the count at 1 and the accumulator empty.
\<close>

lemma rejected_name_is_counted:
  "fst (add_file_from_buffers copy_zlib 1 ziptest (replicate 65536 (CHR ''a'')) [] None
          1700000000 STORED)
     = Inl (runtime_error (''Filename too long: '' @ replicate 65536 (CHR ''a'')))
   \<and> num_entries (snd (add_file_from_buffers copy_zlib 1 ziptest
            (replicate 65536 (CHR ''a'')) [] None 1700000000 STORED)) = 1
   \<and> central_dir (snd (add_file_from_buffers copy_zlib 1 ziptest
            (replicate 65536 (CHR ''a'')) [] None 1700000000 STORED)) = []
   \<and> central_dir_names [] = Some []"
proof -
  have l: "length (replicate 65536 (CHR ''a'')) > 65535" by simp
  show ?thesis
    unfolding add_file_from_buffers_long_name [OF l]
    by (simp add: ziptest_def central_dir_names_Nil)
qed

lemma add_stamped:
  assumes "writable (fs s)"
    and "fst (add_file_from_buffers z now s name buf0 buf1 timestamp compression) = Inr n"
  shows "stamped_with s
           (snd (add_file_from_buffers z now s name buf0 buf1 timestamp compression))
           (if timestamp = 0 then now else timestamp)"
proof -
  from add_file_from_buffers_success [OF assms(2) assms(1)]
  obtain utctm h compressed
    where g: "gmtime (if timestamp = 0 then now else timestamp) = Some utctm"
    and h: "last_mod_file_time h = dos_time utctm" "last_mod_file_date h = dos_date utctm"
    and sn: "snd (add_file_from_buffers z now s name buf0 buf1 timestamp compression)
         = s\<lparr>num_entries := num_entries s + 1,
             fs := (fs s)\<lparr>contents := contents (fs s) @ write4 ZIP_LOCAL_FILE_HEADER_SIG
                     @ local_header_bytes h @ name
                     @ payload_bytes compression compressed buf0 buf1\<rparr>,
             central_dir := central_dir s
                @ central_directory_record h (of_nat (length (contents (fs s)))) name\<rparr>"
    by blast
  define out where "out = contents (fs (snd (add_file_from_buffers z now s name buf0 buf1
      timestamp compression)))"
  have o: "out = contents (fs s) @ write4 ZIP_LOCAL_FILE_HEADER_SIG
                     @ local_header_bytes h @ (name
                     @ payload_bytes compression compressed buf0 buf1)"
    by (simp add: out_def sn)
  note f = entry_time_date_fields [OF o]
  have t: "uint (read2 (field (length (contents (fs s)) + 10) 2 out))
            = msdos_time_spec (tm_hour utctm) (tm_min utctm) (tm_sec utctm)"
    by (simp add: f h dos_time_value [OF g] msdos_time_spec_def)
  have d: "uint (read2 (field (length (contents (fs s)) + 12) 2 out))
            = msdos_date_spec (tm_year utctm + 1900) (tm_mon utctm + 1) (tm_mday utctm)
              mod 65536"
    by (simp add: f h dos_date_value msdos_date_spec_def)
  show ?thesis
    unfolding stamped_with_def g option.case written_dos_time_def written_dos_date_def
    using t d unfolding out_def by blast
qed

lemma add_file_result:
  "fst (add_file z now s name data timestamp) = Inr u \<Longrightarrow>
   \<exists>n. fst (add_file_from_buffers z now s name data None timestamp STORED) = Inr n"
  "snd (add_file z now s name data timestamp)
     = snd (add_file_from_buffers z now s name data None timestamp STORED)"
  by (cases "add_file_from_buffers z now s name data None timestamp STORED";
      cases "fst (add_file_from_buffers z now s name data None timestamp STORED)";
      simp add: add_file_def)+

lemma add_array_result:
  assumes "fst (add_array z now s name T mem shape timestamp) = Inr n"
  shows "\<exists>full_name npy_header buf1.
           add_array z now s name T mem shape timestamp
             = add_file_from_buffers z now s full_name npy_header buf1 timestamp STORED"
  using assms
  by (cases "create_npy_header (numpy_descr T) shape")
     (auto simp: add_array_def add_array_of_type_def Let_def)


lemma create_npy_header_f4_3_2:
  "\<exists>h. create_npy_header ''<f4'' [3, 2] = Inr h \<and> length h = 128"
proof -
  have n: "[3, 2 :: 64 word] \<noteq> []" by simp
  have l: "length (npy_unpatched ''<f4'' [3, 2]) = 128"
    by (simp add: npy_unpatched_def Let_def header_dict_spec_example)
  have "create_npy_header ''<f4'' [3, 2]
          = Inr (take 8 (npy_unpatched ''<f4'' [3, 2])
                 @ write2 (of_nat (length (npy_unpatched ''<f4'' [3, 2]) - 10))
                 @ drop 10 (npy_unpatched ''<f4'' [3, 2]))"
    unfolding create_npy_header_unfold [OF n] Let_def l by simp
  moreover have "length (take 8 (npy_unpatched ''<f4'' [3, 2])
                 @ write2 (of_nat (length (npy_unpatched ''<f4'' [3, 2]) - 10))
                 @ drop 10 (npy_unpatched ''<f4'' [3, 2])) = 128"
    by (simp add: l)
  ultimately show ?thesis by blast
qed

lemma data_size_3_2_float:
  "unat ((scast (fold (\<lambda>d acc. ucast ((scast acc :: 64 word) * d)) [3, 2 :: 64 word]
                   (1 :: 32 word)) :: 64 word) * sizeof T_float) = 24"
  by simp

lemma a_npy: "filename_with_extension ''a'' ''.npy'' = ''a.npy''"
  by (simp add: filename_with_extension_def ends_with_def)

lemma gmtime_now_2023:
  "gmtime (if (0::int) = 0 then 1700000000 else 0)
     = Some \<lparr>tm_sec = 20, tm_min = 13, tm_hour = 22, tm_mday = 14, tm_mon = 10,
              tm_year = 123\<rparr>"
  using gmtime_2023 by simp

lemma clock_examples:
  shows "fst (add_file_from_buffers copy_zlib 1700000000 ziptest ''a'' ''x'' None 0 STORED)
           = Inr 1"
    and "fst (add_file copy_zlib 1700000000 ziptest ''a'' ''x'' 0) = Inr ()"
    and "fst (add_array copy_zlib 1700000000 ziptest ''a'' T_float
                (Some (\<lambda>i. CHR 0x00)) [3, 2] 0) = Inr 152"
proof -
  have l: "length ''a'' \<le> 65535" by simp
  show a: "fst (add_file_from_buffers copy_zlib 1700000000 ziptest ''a'' ''x'' None 0 STORED)
           = Inr 1"
    using add_stored_effect(1) [OF l gmtime_now_2023 writable_ziptest, of copy_zlib "''x''"]
    by simp
  show "fst (add_file copy_zlib 1700000000 ziptest ''a'' ''x'' 0) = Inr ()"
    using a
    by (cases "add_file_from_buffers copy_zlib 1700000000 ziptest ''a'' ''x'' None 0 STORED")
       (simp add: add_file_def)
  obtain h where c: "create_npy_header ''<f4'' [3, 2] = Inr h" and lh: "length h = 128"
    using create_npy_header_f4_3_2 by blast
  have lm: "length ''a.npy'' \<le> 65535" by simp
  have "fst (add_file_from_buffers copy_zlib 1700000000 ziptest ''a.npy'' h
               (Some (map (\<lambda>i. CHR 0x00) [0..<24])) 0 STORED) = Inr 152"
    unfolding add_file_from_buffers_stored [OF lm gmtime_now_2023 writable_ziptest] Let_def
    by (simp add: lh)
  then show "fst (add_array copy_zlib 1700000000 ziptest ''a'' T_float
                (Some (\<lambda>i. CHR 0x00)) [3, 2] 0) = Inr 152"
    unfolding add_array_def add_array_of_type_def numpy_descr.simps c sum.case Let_def
      data_size_3_2_float a_npy option.map
    by simp
qed


lemma add_file_stamped:
  assumes "writable (fs s)" and "fst (add_file z now s name data timestamp) = Inr u"
  shows "stamped_with s (snd (add_file z now s name data timestamp))
           (if timestamp = 0 then now else timestamp)"
proof -
  from add_file_result(1) [OF assms(2)] obtain n
    where "fst (add_file_from_buffers z now s name data None timestamp STORED) = Inr n"
    by blast
  from add_stamped [OF assms(1) this] show ?thesis
    unfolding add_file_result(2) .
qed

lemma add_array_stamped:
  assumes "writable (fs s)" and "fst (add_array z now s name T mem shape timestamp) = Inr n"
  shows "stamped_with s (snd (add_array z now s name T mem shape timestamp))
           (if timestamp = 0 then now else timestamp)"
proof -
  from add_array_result [OF assms(2)] obtain full_name npy_header buf1
    where e: "add_array z now s name T mem shape timestamp
             = add_file_from_buffers z now s full_name npy_header buf1 timestamp STORED"
    by blast
  from add_stamped [OF assms(1) assms(2) [unfolded e]] show ?thesis
    unfolding e .
qed

text \<open>
  C10. A timestamp of 0 passed to \<^verbatim>\<open>add_file_from_buffers\<close>, to \<^verbatim>\<open>add_file\<close> or to
  \<^verbatim>\<open>add_array\<close> is replaced by the reading of the clock. The call is the call with
  the clock's reading as its timestamp, in its result and in everything it writes; and
  when it succeeds on an archive that can be written to, the time and date fields it
  writes into the local header are those of the clock's reading. So, with a clock that
  does not read 0, every call, whatever timestamp it is given, is the call with a
  timestamp other than 0 and stamps its entry with that instant: the instant 0 is never
  the one that is decomposed and written.
\<close>

theorem timestamp_zero_means_current_time:
  "add_file_from_buffers z now s name buf0 buf1 0 compression
     = add_file_from_buffers z now s name buf0 buf1 now compression
  \<and> add_file z now s name data 0 = add_file z now s name data now
  \<and> add_array z now s name T mem shape 0 = add_array z now s name T mem shape now
  \<and> (writable (fs s)
       \<and> fst (add_file_from_buffers z now s name buf0 buf1 0 compression) = Inr n
     \<longrightarrow> stamped_with s (snd (add_file_from_buffers z now s name buf0 buf1 0 compression))
           now)
  \<and> (writable (fs s) \<and> fst (add_file z now s name data 0) = Inr ()
     \<longrightarrow> stamped_with s (snd (add_file z now s name data 0)) now)
  \<and> (writable (fs s) \<and> fst (add_array z now s name T mem shape 0) = Inr m
     \<longrightarrow> stamped_with s (snd (add_array z now s name T mem shape 0)) now)
  \<and> (now \<noteq> 0 \<longrightarrow>
       (\<exists>t. t \<noteq> 0
          \<and> add_file_from_buffers z now s name buf0 buf1 timestamp compression
              = add_file_from_buffers z now s name buf0 buf1 t compression
          \<and> add_file z now s name data timestamp = add_file z now s name data t
          \<and> add_array z now s name T mem shape timestamp
              = add_array z now s name T mem shape t
          \<and> (writable (fs s)
               \<and> fst (add_file_from_buffers z now s name buf0 buf1 timestamp compression)
                   = Inr k
             \<longrightarrow> stamped_with s
                   (snd (add_file_from_buffers z now s name buf0 buf1 timestamp compression))
                   t)
          \<and> (writable (fs s) \<and> fst (add_file z now s name data timestamp) = Inr ()
             \<longrightarrow> stamped_with s (snd (add_file z now s name data timestamp)) t)
          \<and> (writable (fs s) \<and> fst (add_array z now s name T mem shape timestamp) = Inr j
             \<longrightarrow> stamped_with s (snd (add_array z now s name T mem shape timestamp)) t)))"
proof (intro conjI impI)
  show a: "add_file_from_buffers z now s name buf0 buf1 0 compression
     = add_file_from_buffers z now s name buf0 buf1 now compression"
    by (rule timestamp_zero_is_now)
  show b: "add_file z now s name data 0 = add_file z now s name data now"
    by (simp only: add_file_def timestamp_zero_is_now)
  show c: "add_array z now s name T mem shape 0 = add_array z now s name T mem shape now"
    by (simp only: add_array_def add_array_of_type_def timestamp_zero_is_now)
  show "stamped_with s (snd (add_file_from_buffers z now s name buf0 buf1 0 compression)) now"
    if "writable (fs s)
        \<and> fst (add_file_from_buffers z now s name buf0 buf1 0 compression) = Inr n"
    using add_stamped [of s z now name buf0 buf1 0 compression n] that by simp
  show "stamped_with s (snd (add_file z now s name data 0)) now"
    if "writable (fs s) \<and> fst (add_file z now s name data 0) = Inr ()"
    using add_file_stamped [of s z now name data 0 "()"] that by simp
  show "stamped_with s (snd (add_array z now s name T mem shape 0)) now"
    if "writable (fs s) \<and> fst (add_array z now s name T mem shape 0) = Inr m"
    using add_array_stamped [of s z now name T mem shape 0 m] that by simp
  assume n0: "now \<noteq> 0"
  define t where "t = (if timestamp = 0 then now else timestamp)"
  have t0: "t \<noteq> 0" unfolding t_def using n0 by simp
  have e1: "add_file_from_buffers z now s name buf0 buf1 timestamp compression
              = add_file_from_buffers z now s name buf0 buf1 t compression"
    unfolding t_def using a by (cases "timestamp = 0") simp_all
  have e2: "add_file z now s name data timestamp = add_file z now s name data t"
    unfolding t_def using b by (cases "timestamp = 0") simp_all
  have e3: "add_array z now s name T mem shape timestamp = add_array z now s name T mem shape t"
    unfolding t_def using c by (cases "timestamp = 0") simp_all
  have s1: "writable (fs s)
               \<and> fst (add_file_from_buffers z now s name buf0 buf1 timestamp compression)
                   = Inr k
             \<longrightarrow> stamped_with s
                   (snd (add_file_from_buffers z now s name buf0 buf1 timestamp compression))
                   t"
    unfolding t_def using add_stamped [of s z now name buf0 buf1 timestamp compression k]
    by blast
  have s2: "writable (fs s) \<and> fst (add_file z now s name data timestamp) = Inr ()
             \<longrightarrow> stamped_with s (snd (add_file z now s name data timestamp)) t"
    unfolding t_def using add_file_stamped [of s z now name data timestamp "()"] by blast
  have s3: "writable (fs s) \<and> fst (add_array z now s name T mem shape timestamp) = Inr j
             \<longrightarrow> stamped_with s (snd (add_array z now s name T mem shape timestamp)) t"
    unfolding t_def using add_array_stamped [of s z now name T mem shape timestamp j] by blast
  show "\<exists>t. t \<noteq> 0
          \<and> add_file_from_buffers z now s name buf0 buf1 timestamp compression
              = add_file_from_buffers z now s name buf0 buf1 t compression
          \<and> add_file z now s name data timestamp = add_file z now s name data t
          \<and> add_array z now s name T mem shape timestamp
              = add_array z now s name T mem shape t
          \<and> (writable (fs s)
               \<and> fst (add_file_from_buffers z now s name buf0 buf1 timestamp compression)
                   = Inr k
             \<longrightarrow> stamped_with s
                   (snd (add_file_from_buffers z now s name buf0 buf1 timestamp compression))
                   t)
          \<and> (writable (fs s) \<and> fst (add_file z now s name data timestamp) = Inr ()
             \<longrightarrow> stamped_with s (snd (add_file z now s name data timestamp)) t)
          \<and> (writable (fs s) \<and> fst (add_array z now s name T mem shape timestamp) = Inr j
             \<longrightarrow> stamped_with s (snd (add_array z now s name T mem shape timestamp)) t)"
    using t0 e1 e2 e3 s1 s2 s3 by blast
qed


theorem timestamp_zero_means_current_time_witness:
  "writable (fs ziptest) \<and> (1700000000::int) \<noteq> 0
   \<and> gmtime 1700000000
       = Some \<lparr>tm_sec = 20, tm_min = 13, tm_hour = 22, tm_mday = 14, tm_mon = 10,
                tm_year = 123\<rparr>
   \<and> fst (add_file_from_buffers copy_zlib 1700000000 ziptest ''a'' ''x'' None 0 STORED)
       = Inr 1
   \<and> stamped_with ziptest
        (snd (add_file_from_buffers copy_zlib 1700000000 ziptest ''a'' ''x'' None 0 STORED))
        1700000000
   \<and> written_dos_time ziptest
        (snd (add_file_from_buffers copy_zlib 1700000000 ziptest ''a'' ''x'' None 0 STORED))
       = msdos_time_spec 22 13 20
   \<and> written_dos_date ziptest
        (snd (add_file_from_buffers copy_zlib 1700000000 ziptest ''a'' ''x'' None 0 STORED))
       = msdos_date_spec 2023 11 14
   \<and> fst (add_file copy_zlib 1700000000 ziptest ''a'' ''x'' 0) = Inr ()
   \<and> stamped_with ziptest (snd (add_file copy_zlib 1700000000 ziptest ''a'' ''x'' 0))
        1700000000
   \<and> fst (add_array copy_zlib 1700000000 ziptest ''a'' T_float
              (Some (\<lambda>i. CHR 0x00)) [3, 2] 0) = Inr 152
   \<and> stamped_with ziptest
        (snd (add_array copy_zlib 1700000000 ziptest ''a'' T_float
                (Some (\<lambda>i. CHR 0x00)) [3, 2] 0)) 1700000000
   \<and> (\<exists>t. t \<noteq> 0
          \<and> stamped_with ziptest
               (snd (add_file_from_buffers copy_zlib 1700000000 ziptest ''a'' ''x'' None 0
                       STORED)) t)"
proof -
  have n: "(1700000000::int) \<noteq> 0" by simp
  note w = writable_ziptest
  note t = timestamp_zero_means_current_time [where z = copy_zlib and now = 1700000000 and s = ziptest and name = "''a''"
      and ?buf0.0 = "''x''" and ?buf1.0 = None and compression = STORED and data = "''x''"
      and T = T_float and mem = "Some (\<lambda>i. CHR 0x00)" and shape = "[3, 2]"
      and n = 1 and m = 152 and timestamp = 0 and k = 1 and j = 152]
  have s1: "stamped_with ziptest
        (snd (add_file_from_buffers copy_zlib 1700000000 ziptest ''a'' ''x'' None 0 STORED))
        1700000000"
    using t w clock_examples(1) by blast
  have s2: "stamped_with ziptest (snd (add_file copy_zlib 1700000000 ziptest ''a'' ''x'' 0))
        1700000000"
    using t w clock_examples(2) by blast
  have s3: "stamped_with ziptest
        (snd (add_array copy_zlib 1700000000 ziptest ''a'' T_float
                (Some (\<lambda>i. CHR 0x00)) [3, 2] 0)) 1700000000"
    using t w clock_examples(3) by blast
  have s4: "\<exists>t. t \<noteq> 0
          \<and> stamped_with ziptest
               (snd (add_file_from_buffers copy_zlib 1700000000 ziptest ''a'' ''x'' None 0
                       STORED)) t"
    using t w n clock_examples(1) by blast
  have v: "written_dos_time ziptest
        (snd (add_file_from_buffers copy_zlib 1700000000 ziptest ''a'' ''x'' None 0 STORED))
       = msdos_time_spec 22 13 20"
    "written_dos_date ziptest
        (snd (add_file_from_buffers copy_zlib 1700000000 ziptest ''a'' ''x'' None 0 STORED))
       = msdos_date_spec 2023 11 14"
    using s1 unfolding stamped_with_def gmtime_2023 option.case
    by (simp_all add: msdos_date_spec_def)
  show ?thesis
    using w n gmtime_2023 clock_examples s1 s2 s3 s4 v by blast
qed

end
